theory Spec2Isabelle
  imports Main
begin

section \<open>Strings and arrays of the platform\<close>

text \<open>
  JavaScript strings are modelled as \<open>string\<close> (lists of characters); a value that may be
  \<open>undefined\<close> is an \<open>option\<close>. The helpers below follow the methods of
  \<open>String.prototype\<close> and \<open>Array.prototype\<close> that the sources call, for single-character
  separators.
\<close>

definition startsWith :: "string \<Rightarrow> string \<Rightarrow> bool" where
  "startsWith s p = (take (length p) s = p)"

definition endsWith :: "string \<Rightarrow> string \<Rightarrow> bool" where
  "endsWith s p = (length p \<le> length s \<and> drop (length s - length p) s = p)"

fun js_includes :: "string \<Rightarrow> string \<Rightarrow> bool" where
  "js_includes [] p = (p = [])"
| "js_includes (c # cs) p = (startsWith (c # cs) p \<or> js_includes cs p)"

text \<open>\<open>s.split(sep)\<close>: never the empty array; \<open>''''.split(sep)\<close> is \<open>['''']\<close>.\<close>

fun js_split :: "char \<Rightarrow> string \<Rightarrow> string list" where
  "js_split sep [] = [[]]"
| "js_split sep (c # cs) =
     (if c = sep then [] # js_split sep cs
      else (case js_split sep cs of
              [] \<Rightarrow> [[c]]
            | w # ws \<Rightarrow> (c # w) # ws))"

text \<open>\<open>xs.join(sep)\<close>.\<close>

fun js_join :: "string \<Rightarrow> string list \<Rightarrow> string" where
  "js_join sep [] = []"
| "js_join sep [x] = x"
| "js_join sep (x # y # ys) = x @ sep @ js_join sep (y # ys)"

text \<open>\<open>xs[i]\<close>: \<open>undefined\<close> out of range.\<close>

fun at_index :: "'a list \<Rightarrow> nat \<Rightarrow> 'a option" where
  "at_index [] i = None"
| "at_index (x # xs) 0 = Some x"
| "at_index (x # xs) (Suc i) = at_index xs i"

text \<open>Truthiness of a \<open>string | undefined\<close>: defined and not empty.\<close>

fun truthy :: "string option \<Rightarrow> bool" where
  "truthy None = False"
| "truthy (Some s) = (s \<noteq> [])"

text \<open>\<open>a || b\<close> on \<open>string | undefined\<close>.\<close>

definition js_or :: "string option \<Rightarrow> string option \<Rightarrow> string option" where
  "js_or a b = (if truthy a then a else b)"

section \<open>Errors\<close>

text \<open>
  Every \<open>throw\<close> of the sources is a constructor. The sources throw plain \<open>Error\<close> objects
  told apart by their message; the constructor names the throw site and carries the
  interpolated name.
  \<^item> \<open>InvalidURL\<close>: the \<open>TypeError\<close> of \<open>new URL(s)\<close>;
  \<^item> \<open>UndefinedAccess\<close>: the \<open>TypeError\<close> of a method call on \<open>undefined\<close>;
  \<^item> \<open>AlreadyExists n\<close>: \<open>Skill "n" already exists. Use --force to overwrite.\<close> (a conflict);
  \<^item> \<open>SkillNotFound n\<close>: \<open>Skill "n" not found\<close>;
  \<^item> \<open>NoSkillFound t\<close>: \<open>No skill found matching "t" in the registry.\<close>;
  \<^item> \<open>ApiError status message\<close>: thrown by the API client;
  \<^item> \<open>ZodError issues\<close>: thrown by schema validation, with the messages of its issues;
  \<^item> \<open>ENOENT\<close>: reading a file that does not exist;
  \<^item> \<open>YAMLException\<close>: the front matter is not parsable.
\<close>

datatype error =
    InvalidURL
  | UndefinedAccess
  | AlreadyExists string
  | SkillNotFound string
  | NoSkillFound string
  | ApiError nat string
  | ZodError "string list"
  | ENOENT
  | YAMLException

section \<open>The specifier resolver (commands/install.ts)\<close>

datatype SourceType = github | url | local | registry

text \<open>
  \<open>ParsedSource\<close>; the property \<open>url\<close> is the field \<open>url_of\<close> here, \<open>url\<close> being the
  source type.
\<close>

record ParsedSource =
  type :: SourceType
  owner :: "string option"
  repo :: "string option"
  skillPath :: "string option"
  ref :: "string option"
  url_of :: "string option"
  localPath :: "string option"
  registryId :: "string option"

definition source_of :: "SourceType \<Rightarrow> ParsedSource" where
  "source_of t = \<lparr> type = t, owner = None, repo = None, skillPath = None, ref = None,
                   url_of = None, localPath = None, registryId = None \<rparr>"

subsection \<open>\<open>UUID_PATTERN\<close>\<close>

text \<open>
  \<open>/^[0-9a-f]{8}-[0-9a-f]{4}-[0-9a-f]{4}-[0-9a-f]{4}-[0-9a-f]{12}$/i\<close>: the pattern is a
  sequence of 36 single-character atoms, anchored at both ends (\<open>$\<close> without the \<open>m\<close> flag
  is the end of the input).
\<close>

datatype atom = HexDigit | Dash

definition is_hex :: "char \<Rightarrow> bool" where
  "is_hex c = (c \<in> set ''0123456789abcdefABCDEF'')"

fun atom_matches :: "atom \<Rightarrow> char \<Rightarrow> bool" where
  "atom_matches HexDigit c = is_hex c"
| "atom_matches Dash c = (c = CHR ''-'')"

definition UUID_PATTERN :: "atom list" where
  "UUID_PATTERN = replicate 8 HexDigit @ [Dash] @ replicate 4 HexDigit @ [Dash]
      @ replicate 4 HexDigit @ [Dash] @ replicate 4 HexDigit @ [Dash] @ replicate 12 HexDigit"

definition pattern_test :: "atom list \<Rightarrow> string \<Rightarrow> bool" where
  "pattern_test p s = list_all2 atom_matches p s"

subsection \<open>\<open>new URL(s)\<close>\<close>

text \<open>
  The URL constructor belongs to the platform. With no base URL, the parser of the URL
  standard strips leading and trailing C0 controls and spaces, removes tabs and newlines,
  and then reads a scheme: an ASCII letter, then letters, digits, \<open>+\<close>, \<open>-\<close>, \<open>.\<close>, then
  \<open>:\<close>. An input without a scheme is a failure, and the constructor throws. That part is
  modelled here; what the parser does with an input that has a scheme (which may fail as
  well) is the parameter \<open>pathname_of\<close>, giving the \<open>pathname\<close> of the parsed URL.
\<close>

definition is_c0_or_space :: "char \<Rightarrow> bool" where
  "is_c0_or_space c = (of_char c \<le> (32::nat))"

definition is_tab_or_newline :: "char \<Rightarrow> bool" where
  "is_tab_or_newline c = (of_char c \<in> {9, 10, 13::nat})"

definition is_alpha :: "char \<Rightarrow> bool" where
  "is_alpha c = (let n = of_char c :: nat in (65 \<le> n \<and> n \<le> 90) \<or> (97 \<le> n \<and> n \<le> 122))"

definition is_digit :: "char \<Rightarrow> bool" where
  "is_digit c = (let n = of_char c :: nat in 48 \<le> n \<and> n \<le> 57)"

definition url_preprocess :: "string \<Rightarrow> string" where
  "url_preprocess s =
     filter (\<lambda>c. \<not> is_tab_or_newline c)
       (rev (dropWhile is_c0_or_space (rev (dropWhile is_c0_or_space s))))"

fun scheme_state :: "string \<Rightarrow> bool" where
  "scheme_state [] = False"
| "scheme_state (c # cs) =
     (if is_alpha c \<or> is_digit c \<or> c \<in> set ''+-.'' then scheme_state cs
      else c = CHR '':'')"

fun scheme_start_state :: "string \<Rightarrow> bool" where
  "scheme_start_state [] = False"
| "scheme_start_state (c # cs) = (is_alpha c \<and> scheme_state cs)"

definition new_URL_pathname :: "(string \<Rightarrow> string option) \<Rightarrow> string \<Rightarrow> error + string" where
  "new_URL_pathname pathname_of s =
     (if scheme_start_state (url_preprocess s) then
        (case pathname_of s of None \<Rightarrow> Inl InvalidURL | Some p \<Rightarrow> Inr p)
      else Inl InvalidURL)"

subsection \<open>\<open>parseSkillSpecifier\<close>\<close>

text \<open>\<open>[repo, ref] = repo.split('@')\<close> when \<open>repo\<close> includes \<open>@\<close>.\<close>

definition split_ref :: "string option \<Rightarrow> string option \<times> string option" where
  "split_ref r =
     (case r of
        None \<Rightarrow> (None, None)
      | Some s \<Rightarrow>
          if js_includes s ''@''
          then (at_index (js_split CHR ''@'' s) 0, at_index (js_split CHR ''@'' s) 1)
          else (Some s, None))"

text \<open>\<open>skillPath || undefined\<close>.\<close>

definition or_undefined :: "string \<Rightarrow> string option" where
  "or_undefined s = (if s = [] then None else Some s)"

text \<open>The branch of the prefix \<open>github:\<close>.\<close>

definition parse_github_shorthand :: "string \<Rightarrow> error + ParsedSource" where
  "parse_github_shorthand specifier =
     (let rest = drop 7 specifier in
      case js_split CHR ''/'' rest of
        [] \<Rightarrow> Inl UndefinedAccess
      | ownerRepo # pathParts \<Rightarrow>
          let (owner', repoWithRef) =
                (if js_includes ownerRepo ''/''
                 then (at_index (js_split CHR ''/'' ownerRepo) 0,
                       Some (js_join ''/'' (drop 1 (js_split CHR ''/'' ownerRepo))))
                 else (Some ownerRepo, at_index pathParts 0));
              repo0 = js_or (js_or repoWithRef (at_index pathParts 0)) (Some []);
              (repo', ref') = split_ref repo0;
              skillPath' = js_join ''/'' (drop 1 pathParts)
          in Inr ((source_of github)
                    \<lparr> owner := owner', repo := repo', ref := ref',
                      skillPath := or_undefined skillPath' \<rparr>))"

text \<open>The branch of a specifier that includes \<open>github.com\<close>.\<close>

definition strip_git :: "string option \<Rightarrow> string option" where
  "strip_git r =
     (case r of
        None \<Rightarrow> None
      | Some s \<Rightarrow> if endsWith s ''.git'' then Some (take (length s - 4) s) else Some s)"

definition parse_github_url :: "(string \<Rightarrow> string option) \<Rightarrow> string \<Rightarrow> error + ParsedSource" where
  "parse_github_url pathname_of specifier =
     (case new_URL_pathname pathname_of specifier of
        Inl e \<Rightarrow> Inl e
      | Inr pathname \<Rightarrow>
          let parts = js_split CHR ''/'' (drop 1 pathname);
              repo' = strip_git (at_index parts 1);
              ref' = (if at_index parts 2 = Some ''tree'' \<and> truthy (at_index parts 3)
                      then at_index parts 3 else None);
              skillPath' = js_join ''/'' (drop 4 parts)
          in Inr ((source_of github)
                    \<lparr> owner := at_index parts 0, repo := repo', ref := ref',
                      skillPath := or_undefined skillPath' \<rparr>))"

text \<open>The branch of the shorthand \<open>owner/repo\<close>.\<close>

definition parse_owner_repo :: "string \<Rightarrow> ParsedSource" where
  "parse_owner_repo specifier =
     (let parts = js_split CHR ''/'' specifier;
          (repo', ref') = split_ref (at_index parts 1)
      in (source_of github) \<lparr> owner := at_index parts 0, repo := repo', ref := ref' \<rparr>)"

definition parseSkillSpecifier :: "(string \<Rightarrow> string option) \<Rightarrow> string \<Rightarrow> error + ParsedSource" where
  "parseSkillSpecifier pathname_of specifier =
     (if startsWith specifier ''github:'' then parse_github_shorthand specifier
      else if js_includes specifier ''github.com'' then parse_github_url pathname_of specifier
      else if startsWith specifier ''http://'' \<or> startsWith specifier ''https://''
        then Inr ((source_of url) \<lparr> url_of := Some specifier \<rparr>)
      else if startsWith specifier ''./'' \<or> startsWith specifier ''/'' \<or> startsWith specifier ''../''
        then Inr ((source_of local) \<lparr> localPath := Some specifier \<rparr>)
      else if js_includes specifier ''/'' then Inr (parse_owner_repo specifier)
      else if pattern_test UUID_PATTERN specifier
        then Inr ((source_of registry) \<lparr> registryId := Some specifier \<rparr>)
      else Inr ((source_of registry) \<lparr> registryId := Some specifier \<rparr>))"

section \<open>The registry fetcher (commands/install.ts)\<close>

text \<open>
  \<open>toLowerCase\<close> and \<open>trim\<close> of the platform, on ASCII: letters \<open>A\<close> to \<open>Z\<close> are lowered,
  and the white space trimmed is tab, line feed, vertical tab, form feed, carriage return
  and space.
\<close>

definition lower_char :: "char \<Rightarrow> char" where
  "lower_char c =
     (case map_of (zip ''ABCDEFGHIJKLMNOPQRSTUVWXYZ'' ''abcdefghijklmnopqrstuvwxyz'') c of
        Some l \<Rightarrow> l
      | None \<Rightarrow> c)"

definition toLowerCase :: "string \<Rightarrow> string" where
  "toLowerCase s = map lower_char s"

definition is_space :: "char \<Rightarrow> bool" where
  "is_space c = (of_char c \<in> {9, 10, 11, 12, 13, 32::nat})"

definition trim :: "string \<Rightarrow> string" where
  "trim s = rev (dropWhile is_space (rev (dropWhile is_space s)))"

text \<open>The fields of \<open>WorkflowSearchResult\<close> that the fetcher reads (\<open>id\<close>, \<open>title\<close>, \<open>slug\<close>).\<close>

record WorkflowSearchResult =
  w_id :: string
  w_title :: string
  w_slug :: string

text \<open>
  The API client is the three methods the fetcher calls, each returning its value or the
  error it throws; \<open>searchWorkflows\<close> takes the query and the limit and returns the
  \<open>workflows\<close> of the response. The calls made and the lines logged are recorded as
  events, in order.
\<close>

record ApiClient =
  searchWorkflows :: "string \<Rightarrow> nat \<Rightarrow> error + WorkflowSearchResult list"
  getWorkflow :: "string \<Rightarrow> error + WorkflowSearchResult"
  downloadWorkflow :: "string \<Rightarrow> error + string"

datatype event =
    SearchWorkflows string nat
  | GetWorkflow string
  | DownloadWorkflow string
  | Warn_MultipleSkillsFound string
  | Dim_UseWorkflowId

record Fetched =
  f_name :: string
  f_content :: string
  workflowId :: string

text \<open>
  \<open>content.match(/^name:\s*(.+)$/m)\<close> is the parameter \<open>nameMatch\<close>: the first capture
  group of the match, or \<open>None\<close> when the content has no such line.
\<close>

definition name_or_title :: "(string \<Rightarrow> string option) \<Rightarrow> string \<Rightarrow> string \<Rightarrow> string" where
  "name_or_title nameMatch content title =
     (case nameMatch content of Some g \<Rightarrow> trim g | None \<Rightarrow> title)"

definition is_exact :: "string \<Rightarrow> WorkflowSearchResult \<Rightarrow> bool" where
  "is_exact registryId' w =
     (toLowerCase (w_title w) = toLowerCase registryId' \<or> w_slug w = registryId')"

definition fetchFromRegistry ::
  "(string \<Rightarrow> string option) \<Rightarrow> ApiClient \<Rightarrow> string \<Rightarrow> event list \<times> (error + Fetched)" where
  "fetchFromRegistry nameMatch client registryId' =
     (if pattern_test UUID_PATTERN registryId' then
        (case downloadWorkflow client registryId' of
           Inl e \<Rightarrow> ([DownloadWorkflow registryId'], Inl e)
         | Inr content \<Rightarrow>
             (case getWorkflow client registryId' of
                Inl e \<Rightarrow> ([DownloadWorkflow registryId', GetWorkflow registryId'], Inl e)
              | Inr workflow \<Rightarrow>
                  ([DownloadWorkflow registryId', GetWorkflow registryId'],
                   Inr \<lparr> f_name = name_or_title nameMatch content (w_title workflow),
                         f_content = content, workflowId = registryId' \<rparr>)))
      else
        (case searchWorkflows client registryId' 5 of
           Inl e \<Rightarrow> ([SearchWorkflows registryId' 5], Inl e)
         | Inr [] \<Rightarrow> ([SearchWorkflows registryId' 5], Inl (NoSkillFound registryId'))
         | Inr (first # others) \<Rightarrow>
             let exactMatch = find (is_exact registryId') (first # others);
                 workflow = (case exactMatch of Some w \<Rightarrow> w | None \<Rightarrow> first);
                 logged = (if exactMatch = None \<and> length (first # others) > 1
                           then [Warn_MultipleSkillsFound (w_title workflow), Dim_UseWorkflowId]
                           else []);
                 events = [SearchWorkflows registryId' 5] @ logged @ [DownloadWorkflow (w_id workflow)]
             in (case downloadWorkflow client (w_id workflow) of
                   Inl e \<Rightarrow> (events, Inl e)
                 | Inr content \<Rightarrow>
                     (events,
                      Inr \<lparr> f_name = name_or_title nameMatch content (w_title workflow),
                            f_content = content, workflowId = w_id workflow \<rparr>))))"

text \<open>
  The last steps of the fetcher for a chosen workflow \<open>w\<close>: download by the id of \<open>w\<close>,
  take the name from the content or the title of \<open>w\<close>, return them with the id.
\<close>

definition download_result ::
  "(string \<Rightarrow> string option) \<Rightarrow> ApiClient \<Rightarrow> WorkflowSearchResult \<Rightarrow> error + Fetched" where
  "download_result nameMatch client w =
     (case downloadWorkflow client (w_id w) of
        Inl e \<Rightarrow> Inl e
      | Inr content \<Rightarrow>
          Inr \<lparr> f_name = name_or_title nameMatch content (w_title w),
                f_content = content, workflowId = w_id w \<rparr>)"

text \<open>A registry with two workflows, whatever the query, used in the examples.\<close>

definition two_workflows :: "WorkflowSearchResult list" where
  "two_workflows =
     [\<lparr> w_id = ''id-1'', w_title = ''Bar'', w_slug = ''bar'' \<rparr>,
      \<lparr> w_id = ''id-2'', w_title = ''Baz'', w_slug = ''foo'' \<rparr>]"

definition example_client :: ApiClient where
  "example_client =
     \<lparr> searchWorkflows = (\<lambda>query limit. Inr two_workflows),
       getWorkflow = (\<lambda>i. Inl (ApiError 404 ''Not found'')),
       downloadWorkflow = (\<lambda>i. Inr ''# skill'') \<rparr>"

section \<open>The frontmatter schema (schemas/skill.schema.ts)\<close>

text \<open>
  The data that the front-matter library hands to the schema is a YAML value; the header
  of a document is a mapping from keys to such values.
\<close>

datatype yaml =
    YNull
  | YBool bool
  | YNum int
  | YStr string
  | YSeq "yaml list"
  | YMap "(string \<times> yaml) list"

datatype Context = normal | fork

datatype Author = AuthorString string | AuthorObject string "string option" "string option"

text \<open>
  \<open>SkillFrontmatter\<close>, and \<open>Partial<SkillFrontmatter>\<close> as well: every property is an
  \<open>option\<close>, \<open>None\<close> for \<open>undefined\<close>. The output of the schema always has \<open>name\<close>,
  \<open>description\<close>, \<open>disable-model-invocation\<close> and \<open>user-invocable\<close> defined. The
  properties \<open>context\<close> and \<open>keywords\<close> are the fields \<open>context'\<close> and \<open>keywords'\<close>.
\<close>

record SkillFrontmatter =
  name :: "string option"
  description :: "string option"
  version :: "string option"
  disable_model_invocation :: "bool option"
  user_invocable :: "bool option"
  allowed_tools :: "string list option"
  argument_hint :: "string option"
  model :: "string option"
  context' :: "Context option"
  agent :: "string option"
  license :: "string option"
  author :: "Author option"
  keywords' :: "string list option"
  repository :: "string option"

text \<open>\<open>Skill\<close>: the frontmatter spread, with \<open>content\<close> and \<open>path\<close>.\<close>

record Skill = SkillFrontmatter +
  content :: string
  path :: string

text \<open>
  A validator returns the parsed value or the issues it raises: the message given in the
  schema, or the issue code of the library where the schema gives none. An object schema
  collects the issues of all its properties.
\<close>

type_synonym 'a zod = "string list + 'a"

definition zod_ap :: "('a \<Rightarrow> 'b) zod \<Rightarrow> 'a zod \<Rightarrow> 'b zod" where
  "zod_ap f x =
     (case f of
        Inr g \<Rightarrow> (case x of Inr v \<Rightarrow> Inr (g v) | Inl e \<Rightarrow> Inl e)
      | Inl e1 \<Rightarrow> (case x of Inr v \<Rightarrow> Inl e1 | Inl e2 \<Rightarrow> Inl (e1 @ e2)))"

definition z_string :: "yaml option \<Rightarrow> string zod" where
  "z_string y = (case y of Some (YStr s) \<Rightarrow> Inr s | _ \<Rightarrow> Inl [''invalid_type''])"

definition z_boolean :: "yaml option \<Rightarrow> bool zod" where
  "z_boolean y = (case y of Some (YBool b) \<Rightarrow> Inr b | _ \<Rightarrow> Inl [''invalid_type''])"

definition z_optional :: "(yaml option \<Rightarrow> 'a zod) \<Rightarrow> yaml option \<Rightarrow> 'a option zod" where
  "z_optional v y =
     (case y of
        None \<Rightarrow> Inr None
      | Some _ \<Rightarrow> (case v y of Inr a \<Rightarrow> Inr (Some a) | Inl e \<Rightarrow> Inl e))"

definition z_default :: "'a \<Rightarrow> (yaml option \<Rightarrow> 'a option zod) \<Rightarrow> yaml option \<Rightarrow> 'a option zod" where
  "z_default d v y = (case y of None \<Rightarrow> Inr (Some d) | Some _ \<Rightarrow> v y)"

text \<open>\<open>z.array(z.string())\<close>.\<close>

fun strings_of :: "yaml list \<Rightarrow> string list option" where
  "strings_of [] = Some []"
| "strings_of (YStr s # ys) = (case strings_of ys of Some ss \<Rightarrow> Some (s # ss) | None \<Rightarrow> None)"
| "strings_of (_ # ys) = None"

definition z_string_array :: "yaml option \<Rightarrow> string list zod" where
  "z_string_array y =
     (case y of
        Some (YSeq ys) \<Rightarrow> (case strings_of ys of Some ss \<Rightarrow> Inr ss | None \<Rightarrow> Inl [''invalid_type''])
      | _ \<Rightarrow> Inl [''invalid_type''])"

text \<open>\<open>/^[a-z0-9-]+$/\<close>.\<close>

definition is_lower :: "char \<Rightarrow> bool" where
  "is_lower c = (let n = of_char c :: nat in 97 \<le> n \<and> n \<le> 122)"

definition name_regex :: "string \<Rightarrow> bool" where
  "name_regex s = (s \<noteq> [] \<and> list_all (\<lambda>c. is_lower c \<or> is_digit c \<or> c = CHR ''-'') s)"

text \<open>\<open>/^\d+\.\d+\.\d+$/\<close>.\<close>

definition digits1 :: "string \<Rightarrow> bool" where
  "digits1 s = (s \<noteq> [] \<and> list_all is_digit s)"

definition version_regex :: "string \<Rightarrow> bool" where
  "version_regex s =
     (case js_split CHR ''.'' s of [a, b, c] \<Rightarrow> digits1 a \<and> digits1 b \<and> digits1 c | _ \<Rightarrow> False)"

definition z_name :: "yaml option \<Rightarrow> string option zod" where
  "z_name y =
     (case z_string y of
        Inl e \<Rightarrow> Inl e
      | Inr s \<Rightarrow>
          let issues = (if length s < 1 then [''Name is required''] else [])
                     @ (if name_regex s then [] else [''Name must be lowercase alphanumeric with hyphens''])
          in if issues = [] then Inr (Some s) else Inl issues)"

definition z_description :: "yaml option \<Rightarrow> string option zod" where
  "z_description y =
     (case z_string y of
        Inl e \<Rightarrow> Inl e
      | Inr s \<Rightarrow>
          if length s < 10 then Inl [''Description should be detailed for good triggering'']
          else Inr (Some s))"

definition z_version :: "yaml option \<Rightarrow> string zod" where
  "z_version y =
     (case z_string y of
        Inl e \<Rightarrow> Inl e
      | Inr s \<Rightarrow> if version_regex s then Inr s else Inl [''Version must be semver format''])"

text \<open>
  \<open>allowed-tools\<close>: a string or an array of strings; the transform splits a string at the
  commas and trims the pieces.
\<close>

definition z_allowed_tools :: "yaml option \<Rightarrow> string list option zod" where
  "z_allowed_tools y =
     (case y of
        None \<Rightarrow> Inr None
      | Some (YStr s) \<Rightarrow> Inr (Some (map trim (js_split CHR '','' s)))
      | Some _ \<Rightarrow>
          (case z_string_array y of Inr ss \<Rightarrow> Inr (Some ss) | Inl _ \<Rightarrow> Inl [''invalid_union'']))"

definition z_context :: "yaml option \<Rightarrow> Context zod" where
  "z_context y =
     (case y of
        Some (YStr s) \<Rightarrow>
          if s = ''normal'' then Inr normal
          else if s = ''fork'' then Inr fork
          else Inl [''invalid_enum_value'']
      | _ \<Rightarrow> Inl [''invalid_type''])"

text \<open>
  \<open>author\<close>: a string, or an object with a \<open>name\<close> and optional \<open>email\<close> and \<open>url\<close>. The
  checks \<open>.email()\<close> and \<open>.url()\<close> belong to the validation library and are the parameters
  \<open>is_email\<close> and \<open>is_url\<close>.
\<close>

definition z_checked :: "(string \<Rightarrow> bool) \<Rightarrow> yaml option \<Rightarrow> string zod" where
  "z_checked ok y =
     (case z_string y of
        Inl e \<Rightarrow> Inl e
      | Inr s \<Rightarrow> if ok s then Inr s else Inl [''invalid_string''])"

definition z_author :: "(string \<Rightarrow> bool) \<Rightarrow> (string \<Rightarrow> bool) \<Rightarrow> yaml option \<Rightarrow> Author zod" where
  "z_author is_email is_url y =
     (case y of
        Some (YStr s) \<Rightarrow> Inr (AuthorString s)
      | Some (YMap kvs) \<Rightarrow>
          (case zod_ap (zod_ap (zod_ap (Inr AuthorObject) (z_string (map_of kvs ''name'')))
                         (z_optional (z_checked is_email) (map_of kvs ''email'')))
                  (z_optional (z_checked is_url) (map_of kvs ''url'')) of
             Inr a \<Rightarrow> Inr a
           | Inl _ \<Rightarrow> Inl [''invalid_union''])
      | _ \<Rightarrow> Inl [''invalid_union''])"

definition SkillFrontmatterSchema_parse ::
  "(string \<Rightarrow> bool) \<Rightarrow> (string \<Rightarrow> bool) \<Rightarrow> (string \<rightharpoonup> yaml) \<Rightarrow> error + SkillFrontmatter" where
  "SkillFrontmatterSchema_parse is_email is_url data =
     (case
        zod_ap (zod_ap (zod_ap (zod_ap (zod_ap (zod_ap (zod_ap (zod_ap (zod_ap (zod_ap (zod_ap
        (zod_ap (zod_ap (zod_ap
          (Inr (\<lambda>n d v dmi ui tools hint m c a l au k r.
                  \<lparr> name = n, description = d, version = v, disable_model_invocation = dmi,
                    user_invocable = ui, allowed_tools = tools, argument_hint = hint,
                    model = m, context' = c, agent = a, license = l, author = au,
                    keywords' = k, repository = r \<rparr>))
          (z_name (data ''name'')))
          (z_description (data ''description'')))
          (z_optional z_version (data ''version'')))
          (z_default False (z_optional z_boolean) (data ''disable-model-invocation'')))
          (z_default True (z_optional z_boolean) (data ''user-invocable'')))
          (z_allowed_tools (data ''allowed-tools'')))
          (z_optional z_string (data ''argument-hint'')))
          (z_optional z_string (data ''model'')))
          (z_optional z_context (data ''context'')))
          (z_optional z_string (data ''agent'')))
          (z_optional z_string (data ''license'')))
          (z_optional (z_author is_email is_url) (data ''author'')))
          (z_optional z_string_array (data ''keywords'')))
          (z_optional z_string (data ''repository''))
      of
        Inl issues \<Rightarrow> Inl (ZodError issues)
      | Inr frontmatter \<Rightarrow> Inr frontmatter)"

section \<open>The skill document parser (parsers/skill-parser.ts)\<close>

type_synonym directory = "string \<rightharpoonup> string"

text \<open>
  \<open>SkillParser.parse\<close> reads \<open>SKILL.md\<close> in the directory at \<open>basePath\<close>, splits it with the
  front-matter library (the parameter \<open>matter\<close>: the header data and the text after the
  header, or the exception the library throws), validates the data with
  \<open>SkillFrontmatterSchema\<close> and returns the frontmatter with the trimmed body and the path.
\<close>

definition SkillParser_parse ::
  "(string \<Rightarrow> error + (string \<rightharpoonup> yaml) \<times> string) \<Rightarrow> (string \<Rightarrow> bool) \<Rightarrow> (string \<Rightarrow> bool)
     \<Rightarrow> string \<Rightarrow> directory \<Rightarrow> error + Skill" where
  "SkillParser_parse matter is_email is_url basePath dir =
     (case dir ''SKILL.md'' of
        None \<Rightarrow> Inl ENOENT
      | Some text \<Rightarrow>
          (case matter text of
             Inl e \<Rightarrow> Inl e
           | Inr (data, body) \<Rightarrow>
               (case SkillFrontmatterSchema_parse is_email is_url data of
                  Inl e \<Rightarrow> Inl e
                | Inr frontmatter \<Rightarrow>
                    Inr (SkillFrontmatter.extend frontmatter
                           (Skill.fields (trim body) basePath)))))"

text \<open>
  \<open>SkillSchema\<close> extends the frontmatter schema with \<open>content: z.string().min(1, ...)\<close> and
  \<open>path\<close>. \<open>SkillParser.parse\<close> returns a \<open>Skill\<close> and does not run this schema; the check
  it declares for the content is:
\<close>

definition SkillSchema_content :: "string \<Rightarrow> string zod" where
  "SkillSchema_content c = (if length c < 1 then Inl [''Skill content is required''] else Inr c)"

subsection \<open>\<open>generateSkillMd\<close>\<close>

definition NL :: string where
  "NL = [CHR 0x0A]"

text \<open>A line for a string property that is truthy (defined and not empty).\<close>

definition string_line :: "string \<Rightarrow> string option \<Rightarrow> string list" where
  "string_line key v =
     (case v of
        None \<Rightarrow> []
      | Some s \<Rightarrow> if s = [] then [] else [key @ '': '' @ s])"

text \<open>A line for a boolean property that is not \<open>undefined\<close>.\<close>

definition boolean_line :: "string \<Rightarrow> bool option \<Rightarrow> string list" where
  "boolean_line key v =
     (case v of
        None \<Rightarrow> []
      | Some b \<Rightarrow> [key @ '': '' @ (if b then ''true'' else ''false'')])"

definition tools_line :: "string list option \<Rightarrow> string list" where
  "tools_line v =
     (case v of
        None \<Rightarrow> []
      | Some tools \<Rightarrow> if tools = [] then [] else [''allowed-tools: '' @ js_join '', '' tools])"

definition context_line :: "Context option \<Rightarrow> string list" where
  "context_line v =
     (case v of
        None \<Rightarrow> []
      | Some normal \<Rightarrow> [''context: normal'']
      | Some fork \<Rightarrow> [''context: fork''])"

definition generateSkillMd :: "SkillFrontmatter \<Rightarrow> string \<Rightarrow> string" where
  "generateSkillMd frontmatter body =
     (let yamlLines =
            string_line ''name'' (name frontmatter)
          @ string_line ''description'' (description frontmatter)
          @ string_line ''version'' (version frontmatter)
          @ boolean_line ''disable-model-invocation'' (disable_model_invocation frontmatter)
          @ boolean_line ''user-invocable'' (user_invocable frontmatter)
          @ tools_line (allowed_tools frontmatter)
          @ string_line ''argument-hint'' (argument_hint frontmatter)
          @ string_line ''model'' (model frontmatter)
          @ context_line (context' frontmatter)
          @ string_line ''agent'' (agent frontmatter)
      in ''---'' @ NL @ js_join NL yamlLines @ NL @ ''---'' @ NL @ NL @ body @ NL)"

subsection \<open>A front-matter splitter for plain documents\<close>

text \<open>
  Modelled from the spec: the front-matter library that \<open>SkillParser.parse\<close> calls is not
  part of the repository. The spec (sections 4.4 and 6) describes the primary document as
  a structured header block of \<open>key: value\<close> lines bounded by delimiter lines, followed by
  free text. \<open>matter_lines\<close> splits documents of that form, with plain scalar values: the
  words \<open>true\<close> and \<open>false\<close> are booleans, every other value is a string. It is used only
  to run the parser on concrete documents.
\<close>

definition scalar :: "string \<Rightarrow> yaml" where
  "scalar v =
     (if v = ''true'' then YBool True else if v = ''false'' then YBool False else YStr v)"

definition header_line :: "string \<Rightarrow> (string \<times> yaml) option" where
  "header_line l =
     (case dropWhile (\<lambda>c. c \<noteq> CHR '':'') l of
        [] \<Rightarrow> None
      | _ # v \<Rightarrow> Some (takeWhile (\<lambda>c. c \<noteq> CHR '':'') l, scalar (trim v)))"

fun header_data :: "string list \<Rightarrow> (string \<times> yaml) list option" where
  "header_data [] = Some []"
| "header_data (l # ls) =
     (case header_line l of
        None \<Rightarrow> None
      | Some kv \<Rightarrow> (case header_data ls of None \<Rightarrow> None | Some kvs \<Rightarrow> Some (kv # kvs)))"

definition matter_lines :: "string \<Rightarrow> error + (string \<rightharpoonup> yaml) \<times> string" where
  "matter_lines text =
     (case js_split (CHR 0x0A) text of
        [] \<Rightarrow> Inr (Map.empty, text)
      | first # rest \<Rightarrow>
          if first \<noteq> ''---'' then Inr (Map.empty, text)
          else
            (case header_data (takeWhile (\<lambda>l. l \<noteq> ''---'') rest) of
               None \<Rightarrow> Inl YAMLException
             | Some kvs \<Rightarrow>
                 Inr (map_of kvs, js_join NL (drop 1 (dropWhile (\<lambda>l. l \<noteq> ''---'') rest)))))"

section \<open>The manifest (schemas/manifest.schema.ts)\<close>

datatype Scope = global | project

datatype SourceKind = from_registry | from_github | from_git | from_local | from_url

record SkillSource =
  source_type :: SourceKind
  source_url :: "string option"
  source_ref :: "string option"
  source_id :: "string option"

text \<open>An entry of the manifest: \<open>name\<close>, \<open>version\<close>, \<open>installedAt\<close>, \<open>source\<close>, \<open>scope\<close>.\<close>

record SkillManifest =
  entry_name :: string
  entry_version :: string
  installedAt :: string
  source :: SkillSource
  scope :: Scope

text \<open>The manifest: \<open>version\<close> (the literal 1) and \<open>skills\<close>.\<close>

record OutclawManifest =
  manifest_version :: nat
  skills :: "SkillManifest list"

section \<open>The skill manager (core/skill-manager.ts)\<close>

text \<open>
  The files a manager of one scope works on: the skills directory of the scope, a map from
  the name of a skill to its directory (itself a map from the names of its entries to
  their contents), and the lock file of the scope. Skill names are single path segments, so
  that \<open>path.join(base, name)\<close> is \<open>base/name\<close> and different names are different
  directories. The lock file is absent, or not readable as JSON, or holds a manifest.
  Writing a file and creating or removing a directory succeed.
\<close>

datatype lock_file = NoFile | Unparsable | Parsed OutclawManifest

record files =
  skill_dirs :: "string \<rightharpoonup> directory"
  lock :: lock_file

record SkillManager =
  manager_scope :: Scope
  basePath :: string

record InstallOptions =
  force :: "bool option"
  install_source :: SkillSource

definition getSkillPath :: "SkillManager \<Rightarrow> string \<Rightarrow> string" where
  "getSkillPath mgr skillName = basePath mgr @ ''/'' @ skillName"

text \<open>\<open>pathExists(skillPath)\<close>.\<close>

definition skill_dir_exists :: "files \<Rightarrow> string \<Rightarrow> bool" where
  "skill_dir_exists fs skillName = (skill_dirs fs skillName \<noteq> None)"

text \<open>\<open>skillExists\<close>: \<open>pathExists(path.join(skillPath, 'SKILL.md'))\<close>.\<close>

definition skillExists :: "files \<Rightarrow> string \<Rightarrow> bool" where
  "skillExists fs skillName =
     (case skill_dirs fs skillName of
        None \<Rightarrow> False
      | Some dir \<Rightarrow> dir ''SKILL.md'' \<noteq> None)"

text \<open>\<open>ensureDir(skillPath)\<close>: \<open>mkdir\<close> with \<open>recursive\<close>, which keeps an existing directory.\<close>

definition ensureDir :: "string \<Rightarrow> files \<Rightarrow> files" where
  "ensureDir skillName fs =
     (case skill_dirs fs skillName of
        None \<Rightarrow> fs \<lparr> skill_dirs := (skill_dirs fs)(skillName \<mapsto> Map.empty) \<rparr>
      | Some _ \<Rightarrow> fs)"

text \<open>\<open>fs.writeFile(path.join(skillPath, file), text)\<close>; without the directory it fails.\<close>

definition writeFile :: "string \<Rightarrow> string \<Rightarrow> string \<Rightarrow> files \<Rightarrow> error + files" where
  "writeFile skillName file text fs =
     (case skill_dirs fs skillName of
        None \<Rightarrow> Inl ENOENT
      | Some dir \<Rightarrow> Inr (fs \<lparr> skill_dirs := (skill_dirs fs)(skillName \<mapsto> dir(file \<mapsto> text)) \<rparr>))"

definition getManifest :: "files \<Rightarrow> OutclawManifest" where
  "getManifest fs =
     (case lock fs of
        Parsed manifest \<Rightarrow> manifest
      | _ \<Rightarrow> \<lparr> manifest_version = 1, skills = [] \<rparr>)"

text \<open>\<open>xs.findIndex(p)\<close>, with \<open>None\<close> for \<open>-1\<close>.\<close>

fun findIndex :: "('a \<Rightarrow> bool) \<Rightarrow> 'a list \<Rightarrow> nat option" where
  "findIndex p [] = None"
| "findIndex p (x # xs) =
     (if p x then Some 0 else (case findIndex p xs of None \<Rightarrow> None | Some i \<Rightarrow> Some (Suc i)))"

text \<open>\<open>updateManifest\<close>; \<open>now\<close> is \<open>new Date().toISOString()\<close>.\<close>

definition updateManifest :: "SkillManager \<Rightarrow> string \<Rightarrow> string \<Rightarrow> SkillSource \<Rightarrow> files \<Rightarrow> files" where
  "updateManifest mgr now skillName src fs =
     (let manifest = getManifest fs;
          entry = \<lparr> entry_name = skillName, entry_version = ''1.0.0'', installedAt = now,
                    source = src, scope = manager_scope mgr \<rparr>;
          skills' = (case findIndex (\<lambda>s. entry_name s = skillName) (skills manifest) of
                       Some index \<Rightarrow> (skills manifest)[index := entry]
                     | None \<Rightarrow> skills manifest @ [entry])
      in fs \<lparr> lock := Parsed (manifest \<lparr> skills := skills' \<rparr>) \<rparr>)"

definition removeFromManifest :: "string \<Rightarrow> files \<Rightarrow> files" where
  "removeFromManifest skillName fs =
     (case lock fs of
        Parsed manifest \<Rightarrow>
          fs \<lparr> lock := Parsed (manifest \<lparr> skills := filter (\<lambda>s. entry_name s \<noteq> skillName) (skills manifest) \<rparr>) \<rparr>
      | _ \<Rightarrow> fs)"

definition installSkill ::
  "SkillManager \<Rightarrow> string \<Rightarrow> string \<Rightarrow> string \<Rightarrow> InstallOptions \<Rightarrow> files \<Rightarrow> error + string \<times> files" where
  "installSkill mgr now skillName skillMdContent options fs =
     (if force options \<noteq> Some True \<and> skill_dir_exists fs skillName
      then Inl (AlreadyExists skillName)
      else
        (case writeFile skillName ''SKILL.md'' skillMdContent (ensureDir skillName fs) of
           Inl e \<Rightarrow> Inl e
         | Inr fs' \<Rightarrow>
             Inr (getSkillPath mgr skillName,
                  updateManifest mgr now skillName (install_source options) fs')))"

definition uninstallSkill :: "SkillManager \<Rightarrow> string \<Rightarrow> files \<Rightarrow> error + files" where
  "uninstallSkill mgr skillName fs =
     (if \<not> skill_dir_exists fs skillName then Inl (SkillNotFound skillName)
      else Inr (removeFromManifest skillName (fs \<lparr> skill_dirs := (skill_dirs fs)(skillName := None) \<rparr>)))"

subsection \<open>Sequences of operations\<close>

text \<open>
  A sequence of calls on one manager. A call that throws leaves the files as they were:
  both \<open>installSkill\<close> and \<open>uninstallSkill\<close> throw before they write.
\<close>

datatype operation =
    Install string string string InstallOptions
  | Uninstall string

fun step :: "SkillManager \<Rightarrow> files \<Rightarrow> operation \<Rightarrow> files" where
  "step mgr fs (Install now skillName text options) =
     (case installSkill mgr now skillName text options fs of
        Inl _ \<Rightarrow> fs
      | Inr (_, fs') \<Rightarrow> fs')"
| "step mgr fs (Uninstall skillName) =
     (case uninstallSkill mgr skillName fs of
        Inl _ \<Rightarrow> fs
      | Inr fs' \<Rightarrow> fs')"

definition run :: "SkillManager \<Rightarrow> operation list \<Rightarrow> files \<Rightarrow> files" where
  "run mgr ops fs = foldl (step mgr) fs ops"

text \<open>The entries of the lock file, none when it holds no manifest.\<close>

definition entries :: "files \<Rightarrow> SkillManifest list" where
  "entries fs = skills (getManifest fs)"

text \<open>The number of entries for a name, and for a name and scope.\<close>

definition count_name :: "string \<Rightarrow> SkillManifest list \<Rightarrow> nat" where
  "count_name n es = length (filter (\<lambda>e. entry_name e = n) es)"

definition count_name_scope :: "string \<Rightarrow> Scope \<Rightarrow> SkillManifest list \<Rightarrow> nat" where
  "count_name_scope n sc es = length (filter (\<lambda>e. entry_name e = n \<and> scope e = sc) es)"

text \<open>The entry that \<open>updateManifest\<close> writes for a name.\<close>

definition new_entry :: "SkillManager \<Rightarrow> string \<Rightarrow> string \<Rightarrow> SkillSource \<Rightarrow> SkillManifest" where
  "new_entry mgr now skillName src =
     \<lparr> entry_name = skillName, entry_version = ''1.0.0'', installedAt = now,
       source = src, scope = manager_scope mgr \<rparr>"

text \<open>At most one entry for each pair of a name and a scope.\<close>

definition name_scope_unique :: "SkillManifest list \<Rightarrow> bool" where
  "name_scope_unique es = distinct (map (\<lambda>e. (entry_name e, scope e)) es)"

text \<open>The content of an entry of a skill directory, \<open>None\<close> when either is missing.\<close>

definition read_file :: "files \<Rightarrow> string \<Rightarrow> string \<Rightarrow> string option" where
  "read_file fs skillName file =
     (case skill_dirs fs skillName of None \<Rightarrow> None | Some dir \<Rightarrow> dir file)"

subsection \<open>Example files\<close>

definition example_manager :: SkillManager where
  "example_manager = \<lparr> manager_scope = project, basePath = ''skills'' \<rparr>"

definition example_source :: SkillSource where
  "example_source = \<lparr> source_type = from_registry, source_url = None, source_ref = None,
                       source_id = Some ''abc'' \<rparr>"

definition files_with_notes :: files where
  "files_with_notes =
     \<lparr> skill_dirs = [''demo'' \<mapsto> [''SKILL.md'' \<mapsto> ''old'', ''notes.txt'' \<mapsto> ''keep'']],
       lock = NoFile \<rparr>"

definition files_without_document :: files where
  "files_without_document = \<lparr> skill_dirs = [''demo'' \<mapsto> Map.empty], lock = Unparsable \<rparr>"

definition example_operations :: "operation list" where
  "example_operations =
     [Install ''2026-01-01T00:00:00.000Z'' ''demo'' ''first''
        \<lparr> force = None, install_source = example_source \<rparr>,
      Install ''2026-01-02T00:00:00.000Z'' ''demo'' ''second''
        \<lparr> force = Some True, install_source = example_source \<rparr>,
      Install ''2026-01-03T00:00:00.000Z'' ''other'' ''third''
        \<lparr> force = None, install_source = example_source \<rparr>,
      Uninstall ''other'']"

text \<open>
  A lock file of the project scope that also holds an entry of the global scope, under
  another name and under the same name.
\<close>

definition foreign_entry :: SkillManifest where
  "foreign_entry =
     \<lparr> entry_name = ''shared'', entry_version = ''1.0.0'',
       installedAt = ''2026-01-01T00:00:00.000Z'', source = example_source, scope = global \<rparr>"

definition files_with_foreign_entry :: files where
  "files_with_foreign_entry =
     \<lparr> skill_dirs = Map.empty,
       lock = Parsed \<lparr> manifest_version = 1,
                      skills = [foreign_entry,
                                new_entry example_manager ''2026-01-01T00:00:00.000Z'' ''demo''
                                  example_source] \<rparr> \<rparr>"

definition files_with_two_scopes :: files where
  "files_with_two_scopes =
     \<lparr> skill_dirs = [''demo'' \<mapsto> [''SKILL.md'' \<mapsto> ''first'']],
       lock = Parsed \<lparr> manifest_version = 1,
                      skills = [(new_entry example_manager ''2026-01-01T00:00:00.000Z'' ''demo''
                                   example_source) \<lparr> scope := global \<rparr>,
                                new_entry example_manager ''2026-01-01T00:00:00.000Z'' ''demo''
                                  example_source] \<rparr> \<rparr>"

definition no_files :: files where
  "no_files = \<lparr> skill_dirs = Map.empty, lock = NoFile \<rparr>"

subsection \<open>Example documents\<close>

definition document_with_license :: string where
  "document_with_license =
     ''---'' @ NL @ ''name: demo'' @ NL @ ''description: A demo skill for tests'' @ NL
       @ ''license: MIT'' @ NL @ ''---'' @ NL @ NL @ ''Body'' @ NL"

definition document_without_body :: string where
  "document_without_body =
     ''---'' @ NL @ ''name: demo'' @ NL @ ''description: A demo skill for tests'' @ NL
       @ ''---'' @ NL"

definition generated_document :: string where
  "generated_document =
     ''---'' @ NL @ ''name: demo'' @ NL @ ''description: A demo skill for tests'' @ NL
       @ ''disable-model-invocation: false'' @ NL @ ''user-invocable: true'' @ NL
       @ ''---'' @ NL @ NL @ ''Body'' @ NL"

definition demo_data :: "(string \<times> yaml) list" where
  "demo_data = [(''name'', YStr ''demo''), (''description'', YStr ''A demo skill for tests'')]"

definition licensed_data :: "(string \<times> yaml) list" where
  "licensed_data = demo_data @ [(''license'', YStr ''MIT'')]"

definition generated_data :: "(string \<times> yaml) list" where
  "generated_data =
     demo_data @ [(''disable-model-invocation'', YBool False), (''user-invocable'', YBool True)]"

definition demo_frontmatter :: SkillFrontmatter where
  "demo_frontmatter =
     \<lparr> name = Some ''demo'', description = Some ''A demo skill for tests'', version = None,
       disable_model_invocation = Some False, user_invocable = Some True,
       allowed_tools = None, argument_hint = None, model = None, context' = None,
       agent = None, license = None, author = None, keywords' = None, repository = None \<rparr>"

section \<open>Properties of the specifier resolver\<close>

lemma js_split_no_sep: "sep \<notin> set s \<Longrightarrow> js_split sep s = [s]"
  by (induction s) auto

lemma js_split_append: "sep \<notin> set a \<Longrightarrow> js_split sep (a @ sep # b) = a # js_split sep b"
  by (induction a) auto

lemma js_includes_char: "js_includes s [c] \<longleftrightarrow> c \<in> set s"
  by (induction s) (auto simp: startsWith_def)

lemma startsWith_set: "startsWith s p \<Longrightarrow> set p \<subseteq> set s"
  unfolding startsWith_def by (metis set_take_subset)

lemma js_includes_set: "js_includes s p \<Longrightarrow> set p \<subseteq> set s"
proof (induction s)
  case Nil
  then show ?case by simp
next
  case (Cons a s)
  from Cons.prems have "startsWith (a # s) p \<or> js_includes s p" by simp
  then show ?case
  proof
    assume "startsWith (a # s) p"
    then show ?thesis by (rule startsWith_set)
  next
    assume "js_includes s p"
    then have "set p \<subseteq> set s" by (rule Cons.IH)
    then show ?thesis by auto
  qed
qed

lemma pattern_test_chars:
  "pattern_test p s \<Longrightarrow> c \<in> set s \<Longrightarrow> is_hex c \<or> c = CHR ''-''"
  unfolding pattern_test_def
proof (induction p s rule: list_all2_induct)
  case Nil
  then show ?case by simp
next
  case (Cons a p x s)
  then show ?case by (cases a) auto
qed

lemma pattern_test_length: "pattern_test UUID_PATTERN s \<Longrightarrow> length s = 36"
  unfolding pattern_test_def UUID_PATTERN_def by (drule list_all2_lengthD) simp

lemma js_split_not_empty: "js_split sep s \<noteq> []"
  by (induction s) (auto split: list.splits)

lemma parse_github_shorthand_returns: "\<exists>src. parse_github_shorthand s = Inr src"
proof (cases "js_split CHR ''/'' (drop 7 s)")
  case Nil
  then show ?thesis using js_split_not_empty by blast
next
  case (Cons ownerRepo pathParts)
  then show ?thesis
    by (simp add: parse_github_shorthand_def Let_def split: prod.splits)
qed

text \<open>
  C1. The claim: the resolver is total and never fails, also on inputs that contain
  \<open>github.com\<close> and are not well-formed URLs. The code hands every specifier that includes
  \<open>github.com\<close> (and does not start with \<open>github:\<close>) to \<open>new URL\<close>, which throws on an input
  without a scheme: on \<open>github.com/owner/repo\<close> the resolver throws, whatever the URL
  parser does on inputs that have a scheme. On every specifier that does not include
  \<open>github.com\<close> the resolver returns a source.
\<close>

theorem parseSkillSpecifier_throws_without_scheme:
  "parseSkillSpecifier pathname_of ''github.com/owner/repo'' = Inl InvalidURL
   \<and> (js_includes s ''github.com'' \<and> \<not> startsWith s ''github:''
        \<and> \<not> scheme_start_state (url_preprocess s) \<longrightarrow>
      parseSkillSpecifier pathname_of s = Inl InvalidURL)
   \<and> (\<not> js_includes s ''github.com'' \<longrightarrow> (\<exists>src. parseSkillSpecifier pathname_of s = Inr src))"
proof (intro conjI impI)
  show "parseSkillSpecifier pathname_of ''github.com/owner/repo'' = Inl InvalidURL"
    by (simp add: parseSkillSpecifier_def startsWith_def parse_github_url_def new_URL_pathname_def
        url_preprocess_def is_c0_or_space_def is_tab_or_newline_def is_alpha_def is_digit_def)
next
  assume "js_includes s ''github.com'' \<and> \<not> startsWith s ''github:''
        \<and> \<not> scheme_start_state (url_preprocess s)"
  then show "parseSkillSpecifier pathname_of s = Inl InvalidURL"
    by (simp add: parseSkillSpecifier_def parse_github_url_def new_URL_pathname_def)
next
  assume n: "\<not> js_includes s ''github.com''"
  show "\<exists>src. parseSkillSpecifier pathname_of s = Inr src"
  proof (cases "startsWith s ''github:''")
    case True
    then show ?thesis
      using parse_github_shorthand_returns [of s] by (simp add: parseSkillSpecifier_def)
  next
    case False
    with n show ?thesis by (simp add: parseSkillSpecifier_def)
  qed
qed

theorem parseSkillSpecifier_throws_without_scheme_witness:
  "js_includes ''see github.com/owner/repo'' ''github.com''
   \<and> \<not> startsWith ''see github.com/owner/repo'' ''github:''
   \<and> \<not> scheme_start_state (url_preprocess ''see github.com/owner/repo'')
   \<and> parseSkillSpecifier (\<lambda>_. None) ''see github.com/owner/repo'' = Inl InvalidURL
   \<and> \<not> js_includes ''./local/my-skill'' ''github.com''
   \<and> parseSkillSpecifier (\<lambda>_. None) ''./local/my-skill'' =
       Inr ((source_of local) \<lparr> localPath := Some ''./local/my-skill'' \<rparr>)"
proof -
  have a: "js_includes ''see github.com/owner/repo'' ''github.com''"
    by (simp add: startsWith_def)
  have b: "\<not> startsWith ''see github.com/owner/repo'' ''github:''"
    by (simp add: startsWith_def)
  have c: "\<not> scheme_start_state (url_preprocess ''see github.com/owner/repo'')"
    by (simp add: url_preprocess_def is_c0_or_space_def is_tab_or_newline_def is_alpha_def
        is_digit_def)
  have d: "\<not> js_includes ''./local/my-skill'' ''github.com''"
    by (simp add: startsWith_def)
  have e: "parseSkillSpecifier (\<lambda>_. None) ''./local/my-skill'' =
       Inr ((source_of local) \<lparr> localPath := Some ''./local/my-skill'' \<rparr>)"
    by (simp add: parseSkillSpecifier_def startsWith_def)
  from parseSkillSpecifier_throws_without_scheme
         [of "\<lambda>_. None" "''see github.com/owner/repo''"] a b c
  have "parseSkillSpecifier (\<lambda>_. None) ''see github.com/owner/repo'' = Inl InvalidURL"
    by blast
  moreover from parseSkillSpecifier_throws_without_scheme [of "\<lambda>_. None" "''./local/my-skill''"] d
  have "\<exists>src. parseSkillSpecifier (\<lambda>_. None) ''./local/my-skill'' = Inr src"
    by blast
  ultimately show ?thesis using a b c d e by simp
qed

text \<open>
  C6, as stated: resolving \<open>hosted:acme/widgets@v2/tools/lint\<close> yields owner \<open>acme\<close>, repo
  \<open>widgets\<close>, ref \<open>v2\<close> and subpath \<open>tools/lint\<close>. The prefix the code knows is \<open>github:\<close>;
  a specifier that starts with \<open>hosted:\<close> falls through to the shorthand \<open>owner/repo\<close>, so
  the owner is \<open>hosted:acme\<close> and there is no subpath.
\<close>

theorem hosted_prefix_is_not_a_rule:
  "parseSkillSpecifier (\<lambda>_. None) ''hosted:acme/widgets@v2/tools/lint'' =
     Inr ((source_of github) \<lparr> owner := Some ''hosted:acme'', repo := Some ''widgets'',
                               ref := Some ''v2'' \<rparr>)
   \<and> parseSkillSpecifier (\<lambda>_. None) ''hosted:acme/widgets@v2/tools/lint'' \<noteq>
     Inr ((source_of github) \<lparr> owner := Some ''acme'', repo := Some ''widgets'',
                               ref := Some ''v2'', skillPath := Some ''tools/lint'' \<rparr>)"
  by (simp add: parseSkillSpecifier_def startsWith_def parse_owner_repo_def split_ref_def
      source_of_def pattern_test_def UUID_PATTERN_def)

text \<open>
  C6, amended: with the prefix \<open>github:\<close>, for every owner and repo that contain no \<open>/\<close>
  and no \<open>@\<close>, the specifier \<open>github:owner/repo\<close> resolves to the github variant with that
  owner and repo and neither ref nor subpath; and \<open>github:acme/widgets@v2/tools/lint\<close>
  resolves to owner \<open>acme\<close>, repo \<open>widgets\<close>, ref \<open>v2\<close>, subpath \<open>tools/lint\<close>.
\<close>

theorem github_prefix_rule:
  assumes "CHR ''/'' \<notin> set owner'" and "CHR ''@'' \<notin> set owner'"
    and "CHR ''/'' \<notin> set repo'" and "CHR ''@'' \<notin> set repo'"
  shows "parseSkillSpecifier pathname_of (''github:'' @ owner' @ ''/'' @ repo') =
           Inr ((source_of github) \<lparr> owner := Some owner', repo := Some repo' \<rparr>)
       \<and> parseSkillSpecifier pathname_of ''github:acme/widgets@v2/tools/lint'' =
           Inr ((source_of github) \<lparr> owner := Some ''acme'', repo := Some ''widgets'',
                                     ref := Some ''v2'', skillPath := Some ''tools/lint'' \<rparr>)"
proof
  have sp: "js_split CHR ''/'' (owner' @ ''/'' @ repo') = [owner', repo']"
    using assms by (simp add: js_split_append js_split_no_sep)
  have no_slash: "\<not> js_includes owner' ''/''"
    using assms by (simp add: js_includes_char)
  have no_at: "\<not> js_includes repo' ''@''"
    using assms by (simp add: js_includes_char)
  have "parse_github_shorthand (''github:'' @ owner' @ ''/'' @ repo') =
           Inr ((source_of github) \<lparr> owner := Some owner', repo := Some repo' \<rparr>)"
    using sp no_slash no_at
    by (cases "repo' = []")
       (simp_all add: parse_github_shorthand_def split_ref_def js_or_def or_undefined_def source_of_def)
  then show "parseSkillSpecifier pathname_of (''github:'' @ owner' @ ''/'' @ repo') =
           Inr ((source_of github) \<lparr> owner := Some owner', repo := Some repo' \<rparr>)"
    by (simp add: parseSkillSpecifier_def startsWith_def)
next
  show "parseSkillSpecifier pathname_of ''github:acme/widgets@v2/tools/lint'' =
           Inr ((source_of github) \<lparr> owner := Some ''acme'', repo := Some ''widgets'',
                                     ref := Some ''v2'', skillPath := Some ''tools/lint'' \<rparr>)"
    by (simp add: parseSkillSpecifier_def startsWith_def parse_github_shorthand_def split_ref_def
        js_or_def or_undefined_def)
qed

theorem github_prefix_rule_witness:
  "CHR ''/'' \<notin> set ''acme'' \<and> CHR ''@'' \<notin> set ''acme''
   \<and> CHR ''/'' \<notin> set ''widgets'' \<and> CHR ''@'' \<notin> set ''widgets''
   \<and> parseSkillSpecifier (\<lambda>_. None) ''github:acme/widgets'' =
       Inr ((source_of github) \<lparr> owner := Some ''acme'', repo := Some ''widgets'' \<rparr>)"
  using github_prefix_rule [of "''acme''" "''widgets''" "\<lambda>_. None"] by simp

text \<open>
  C7. For every string that matches \<open>UUID_PATTERN\<close>, the resolver returns the registry
  variant whose id is the string itself: no earlier rule captures it.
\<close>

theorem uuid_resolves_to_registry:
  assumes "pattern_test UUID_PATTERN s"
  shows "parseSkillSpecifier pathname_of s = Inr ((source_of registry) \<lparr> registryId := Some s \<rparr>)"
proof -
  have chars: "\<And>c. c \<in> set s \<Longrightarrow> is_hex c \<or> c = CHR ''-''"
    using assms pattern_test_chars by blast
  have g: "CHR ''g'' \<notin> set s" and h: "CHR ''h'' \<notin> set s" and sl: "CHR ''/'' \<notin> set s"
    using chars by (auto simp: is_hex_def)
  have 1: "\<not> startsWith s ''github:''" using g startsWith_set by fastforce
  have 2: "\<not> js_includes s ''github.com''" using g js_includes_set by fastforce
  have 3: "\<not> startsWith s ''http://''" "\<not> startsWith s ''https://''"
    using h startsWith_set by fastforce+
  have 4: "\<not> startsWith s ''./''" "\<not> startsWith s ''/''" "\<not> startsWith s ''../''"
    using sl startsWith_set by fastforce+
  have 5: "\<not> js_includes s ''/''" using sl by (simp add: js_includes_char)
  show ?thesis using 1 2 3 4 5 by (simp add: parseSkillSpecifier_def)
qed

theorem uuid_resolves_to_registry_witness:
  "pattern_test UUID_PATTERN ''123e4567-E89B-42d3-a456-426614174000''
   \<and> parseSkillSpecifier (\<lambda>_. None) ''123e4567-E89B-42d3-a456-426614174000'' =
       Inr ((source_of registry) \<lparr> registryId := Some ''123e4567-E89B-42d3-a456-426614174000'' \<rparr>)"
proof -
  have m: "pattern_test UUID_PATTERN ''123e4567-E89B-42d3-a456-426614174000''"
    by (simp add: pattern_test_def UUID_PATTERN_def is_hex_def numeral_eq_Suc)
  show ?thesis
    using m uuid_resolves_to_registry [OF m, of "\<lambda>_. None"] by simp
qed

section \<open>Properties of the registry fetcher\<close>

lemma find_first:
  "i < length xs \<Longrightarrow> P (xs ! i) \<Longrightarrow> \<forall>j<i. \<not> P (xs ! j) \<Longrightarrow> find P xs = Some (xs ! i)"
proof (induction xs arbitrary: i)
  case Nil
  then show ?case by simp
next
  case (Cons x xs)
  show ?case
  proof (cases i)
    case 0
    with Cons.prems show ?thesis by simp
  next
    case (Suc k)
    with Cons.prems have "\<not> P x" by auto
    moreover have "find P xs = Some (xs ! k)"
      using Cons.prems Suc by (intro Cons.IH) auto
    ultimately show ?thesis using Suc by simp
  qed
qed

lemma find_none: "\<forall>x\<in>set xs. \<not> P x \<Longrightarrow> find P xs = None"
  by (simp add: find_None_iff)

lemma fetch_nonempty:
  assumes "\<not> pattern_test UUID_PATTERN t"
    and "searchWorkflows client t 5 = Inr (first # others)"
    and "find (is_exact t) (first # others) = r"
  shows "fetchFromRegistry nm client t =
           (let workflow = (case r of Some w \<Rightarrow> w | None \<Rightarrow> first) in
            ([SearchWorkflows t 5]
               @ (if r = None \<and> others \<noteq> []
                  then [Warn_MultipleSkillsFound (w_title workflow), Dim_UseWorkflowId] else [])
               @ [DownloadWorkflow (w_id workflow)],
             download_result nm client workflow))"
proof -
  have "fetchFromRegistry nm client t =
          (let exactMatch = r;
               workflow = (case exactMatch of Some w \<Rightarrow> w | None \<Rightarrow> first);
               logged = (if exactMatch = None \<and> length (first # others) > 1
                         then [Warn_MultipleSkillsFound (w_title workflow), Dim_UseWorkflowId]
                         else []);
               events = [SearchWorkflows t 5] @ logged @ [DownloadWorkflow (w_id workflow)]
           in (case downloadWorkflow client (w_id workflow) of
                 Inl e \<Rightarrow> (events, Inl e)
               | Inr md \<Rightarrow>
                   (events,
                    Inr \<lparr> f_name = name_or_title nm md (w_title workflow),
                          f_content = md, workflowId = w_id workflow \<rparr>)))"
    unfolding fetchFromRegistry_def
    by (simp only: assms if_False sum.case list.case)
  then show ?thesis
    by (simp add: download_result_def Let_def split: sum.splits)
qed

text \<open>
  C8, as stated: the result chosen is the one with an exact case-insensitive title or slug
  match. The code lowers the title only and compares the slug as it is: for the term
  \<open>Foo\<close> and the results \<open>Bar\<close> (slug \<open>bar\<close>) and \<open>Baz\<close> (slug \<open>foo\<close>), the slug of the second
  equals the term up to case, and the fetcher takes the first result, warns and downloads
  \<open>id-1\<close>.
\<close>

theorem slug_match_is_case_sensitive:
  "searchWorkflows example_client ''Foo'' 5 = Inr two_workflows
   \<and> toLowerCase (w_slug (two_workflows ! 1)) = toLowerCase ''Foo''
   \<and> fetchFromRegistry (\<lambda>_. None) example_client ''Foo'' =
       ([SearchWorkflows ''Foo'' 5, Warn_MultipleSkillsFound ''Bar'', Dim_UseWorkflowId,
         DownloadWorkflow ''id-1''],
        Inr \<lparr> f_name = ''Bar'', f_content = ''# skill'', workflowId = ''id-1'' \<rparr>)"
proof -
  have "\<not> pattern_test UUID_PATTERN ''Foo''"
    using pattern_test_length [of "''Foo''"] by auto
  then show ?thesis
    by (simp add: fetchFromRegistry_def example_client_def two_workflows_def is_exact_def
        toLowerCase_def lower_char_def name_or_title_def)
qed

text \<open>
  C8, amended: for a term that does not match \<open>UUID_PATTERN\<close>, the fetcher makes one
  search, with the limit 5. With no result it fails with \<open>NoSkillFound\<close> and does nothing
  else. Otherwise it takes the first result whose title equals the term up to case or
  whose slug equals the term exactly, and downloads by its id without a warning; when no
  result matches so, it takes the first result, warns when there are more results than
  one, and downloads by the id of the first result.
\<close>

theorem fetchFromRegistry_by_search:
  assumes nu: "\<not> pattern_test UUID_PATTERN t"
    and sr: "searchWorkflows client t 5 = Inr rs"
  shows "(rs = [] \<longrightarrow> fetchFromRegistry nm client t = ([SearchWorkflows t 5], Inl (NoSkillFound t)))
       \<and> (\<forall>i. i < length rs \<and> is_exact t (rs ! i) \<and> (\<forall>j<i. \<not> is_exact t (rs ! j)) \<longrightarrow>
             fetchFromRegistry nm client t =
               ([SearchWorkflows t 5, DownloadWorkflow (w_id (rs ! i))],
                download_result nm client (rs ! i)))
       \<and> (\<forall>first others. rs = first # others \<and> (\<forall>w\<in>set rs. \<not> is_exact t w) \<longrightarrow>
             fetchFromRegistry nm client t =
               ([SearchWorkflows t 5]
                  @ (if others = [] then []
                     else [Warn_MultipleSkillsFound (w_title first), Dim_UseWorkflowId])
                  @ [DownloadWorkflow (w_id first)],
                download_result nm client first))"
proof (intro conjI allI impI)
  assume "rs = []"
  then show "fetchFromRegistry nm client t = ([SearchWorkflows t 5], Inl (NoSkillFound t))"
    using nu sr by (simp add: fetchFromRegistry_def)
next
  fix i
  assume a: "i < length rs \<and> is_exact t (rs ! i) \<and> (\<forall>j<i. \<not> is_exact t (rs ! j))"
  then obtain first others where rs: "rs = first # others" by (cases rs) auto
  have f: "find (is_exact t) (first # others) = Some (rs ! i)"
    using a find_first [of i rs "is_exact t"] rs by simp
  show "fetchFromRegistry nm client t =
               ([SearchWorkflows t 5, DownloadWorkflow (w_id (rs ! i))],
                download_result nm client (rs ! i))"
    using fetch_nonempty [OF nu sr [unfolded rs] f, of nm] by (simp add: Let_def)
next
  fix first others
  assume a: "rs = first # others \<and> (\<forall>w\<in>set rs. \<not> is_exact t w)"
  then have f: "find (is_exact t) (first # others) = None"
    using find_none [of rs "is_exact t"] by simp
  from a have sr': "searchWorkflows client t 5 = Inr (first # others)" using sr by simp
  show "fetchFromRegistry nm client t =
               ([SearchWorkflows t 5]
                  @ (if others = [] then []
                     else [Warn_MultipleSkillsFound (w_title first), Dim_UseWorkflowId])
                  @ [DownloadWorkflow (w_id first)],
                download_result nm client first)"
    using fetch_nonempty [OF nu sr' f, of nm] by (simp add: Let_def)
qed

theorem fetchFromRegistry_by_search_witness:
  "\<not> pattern_test UUID_PATTERN ''BAZ''
   \<and> searchWorkflows example_client ''BAZ'' 5 = Inr two_workflows
   \<and> (1::nat) < length two_workflows
   \<and> is_exact ''BAZ'' (two_workflows ! 1)
   \<and> \<not> is_exact ''BAZ'' (two_workflows ! 0)
   \<and> fetchFromRegistry (\<lambda>_. None) example_client ''BAZ'' =
       ([SearchWorkflows ''BAZ'' 5, DownloadWorkflow ''id-2''],
        Inr \<lparr> f_name = ''Baz'', f_content = ''# skill'', workflowId = ''id-2'' \<rparr>)"
proof -
  have nu: "\<not> pattern_test UUID_PATTERN ''BAZ''"
    using pattern_test_length [of "''BAZ''"] by auto
  have sr: "searchWorkflows example_client ''BAZ'' 5 = Inr two_workflows"
    by (simp add: example_client_def)
  have ex: "is_exact ''BAZ'' (two_workflows ! 1)"
    by (simp add: two_workflows_def is_exact_def toLowerCase_def lower_char_def)
  have nex: "\<forall>j<1. \<not> is_exact ''BAZ'' (two_workflows ! j)"
    by (simp add: two_workflows_def is_exact_def toLowerCase_def lower_char_def)
  have len: "(1::nat) < length two_workflows"
    by (simp add: two_workflows_def)
  have dl: "download_result (\<lambda>_. None) example_client (two_workflows ! 1) =
              Inr \<lparr> f_name = ''Baz'', f_content = ''# skill'', workflowId = ''id-2'' \<rparr>"
    by (simp add: download_result_def example_client_def two_workflows_def name_or_title_def)
  have id2: "w_id (two_workflows ! 1) = ''id-2''"
    by (simp add: two_workflows_def)
  from fetchFromRegistry_by_search [OF nu sr, of "\<lambda>_. None"] len ex nex
  have "fetchFromRegistry (\<lambda>_. None) example_client ''BAZ'' =
          ([SearchWorkflows ''BAZ'' 5, DownloadWorkflow (w_id (two_workflows ! 1))],
           download_result (\<lambda>_. None) example_client (two_workflows ! 1))"
    by blast
  moreover have "\<not> is_exact ''BAZ'' (two_workflows ! 0)"
    using nex by simp
  ultimately show ?thesis using nu sr len ex dl id2 by simp
qed

section \<open>Properties of the skill manager\<close>

lemma findIndex_None: "findIndex p xs = None \<longleftrightarrow> (\<forall>x\<in>set xs. \<not> p x)"
  by (induction xs) (auto split: option.splits)

lemma findIndex_Some:
  "findIndex p xs = Some i \<Longrightarrow> i < length xs \<and> p (xs ! i) \<and> (\<forall>j<i. \<not> p (xs ! j))"
proof (induction xs arbitrary: i)
  case Nil
  then show ?case by simp
next
  case (Cons x xs)
  show ?case
  proof (cases "p x")
    case True
    with Cons.prems show ?thesis by simp
  next
    case False
    with Cons.prems obtain k where k: "findIndex p xs = Some k" "i = Suc k"
      by (auto split: option.splits)
    from Cons.IH[OF k(1)] False k(2) show ?thesis
      by (auto simp: less_Suc_eq_0_disj)
  qed
qed

lemma entries_updateManifest:
  "entries (updateManifest mgr now n src fs) =
     (case findIndex (\<lambda>s. entry_name s = n) (entries fs) of
        Some i \<Rightarrow> (entries fs)[i := new_entry mgr now n src]
      | None \<Rightarrow> entries fs @ [new_entry mgr now n src])"
  by (simp add: entries_def updateManifest_def getManifest_def new_entry_def Let_def split: option.splits)

lemma entries_removeFromManifest:
  "entries (removeFromManifest n fs) = filter (\<lambda>s. entry_name s \<noteq> n) (entries fs)"
  by (cases "lock fs") (simp_all add: entries_def removeFromManifest_def getManifest_def)

lemma map_name_update:
  "i < length es \<Longrightarrow> entry_name (es ! i) = n \<Longrightarrow> entry_name e = n \<Longrightarrow>
   map entry_name (es[i := e]) = map entry_name es"
  by (simp add: map_update list_update_same_conv)

lemma names_updateManifest:
  "map entry_name (entries (updateManifest mgr now n src fs)) =
     (if n \<in> set (map entry_name (entries fs)) then map entry_name (entries fs)
      else map entry_name (entries fs) @ [n])"
proof (cases "findIndex (\<lambda>s. entry_name s = n) (entries fs)")
  case None
  then have "n \<notin> set (map entry_name (entries fs))"
    by (auto simp: findIndex_None)
  with None show ?thesis
    by (simp add: entries_updateManifest new_entry_def)
next
  case (Some i)
  from findIndex_Some[OF Some] have i: "i < length (entries fs)" "entry_name (entries fs ! i) = n"
    by auto
  then have "n \<in> set (map entry_name (entries fs))"
    by (metis length_map nth_map nth_mem)
  with Some i show ?thesis
    by (simp add: entries_updateManifest map_name_update new_entry_def)
qed

lemma scope_updateManifest:
  assumes "\<forall>e\<in>set (entries fs). scope e = manager_scope mgr"
  shows "\<forall>e\<in>set (entries (updateManifest mgr now n src fs)). scope e = manager_scope mgr"
proof (cases "findIndex (\<lambda>s. entry_name s = n) (entries fs)")
  case None
  with assms show ?thesis by (simp add: entries_updateManifest new_entry_def)
next
  case (Some i)
  have "set ((entries fs)[i := new_entry mgr now n src]) \<subseteq> insert (new_entry mgr now n src) (set (entries fs))"
    by (rule set_update_subset_insert)
  with assms Some show ?thesis
    by (auto simp: entries_updateManifest new_entry_def)
qed

lemma distinct_names_updateManifest:
  "distinct (map entry_name (entries fs)) \<Longrightarrow>
   distinct (map entry_name (entries (updateManifest mgr now n src fs)))"
  by (simp add: names_updateManifest)

lemma distinct_names_removeFromManifest:
  "distinct (map entry_name (entries fs)) \<Longrightarrow>
   distinct (map entry_name (entries (removeFromManifest n fs)))"
  by (simp add: entries_removeFromManifest distinct_map_filter)

lemma scope_removeFromManifest:
  "\<forall>e\<in>set (entries fs). scope e = sc \<Longrightarrow>
   \<forall>e\<in>set (entries (removeFromManifest n fs)). scope e = sc"
  by (simp add: entries_removeFromManifest)

lemma entries_skill_dirs_update [simp]:
  "entries (fs \<lparr> skill_dirs := d \<rparr>) = entries fs"
  by (simp add: entries_def getManifest_def)

lemma installSkill_result:
  "installSkill mgr now n text options fs =
     (if force options \<noteq> Some True \<and> skill_dir_exists fs n then Inl (AlreadyExists n)
      else Inr (getSkillPath mgr n,
                updateManifest mgr now n (install_source options)
                  (fs \<lparr> skill_dirs := (skill_dirs fs)
                          (n \<mapsto> (case skill_dirs fs n of None \<Rightarrow> Map.empty | Some dir \<Rightarrow> dir)(''SKILL.md'' \<mapsto> text)) \<rparr>)))"
  by (cases "skill_dirs fs n") (simp_all add: installSkill_def writeFile_def ensureDir_def)

lemma step_entries:
  "entries (step mgr fs opn) = entries fs
   \<or> (\<exists>now n src. entries (step mgr fs opn) = entries (updateManifest mgr now n src fs))
   \<or> (\<exists>n. entries (step mgr fs opn) = entries (removeFromManifest n fs))"
proof (cases opn)
  case (Install now n md options)
  have upd: "\<And>d. entries (updateManifest mgr now n (install_source options) (fs \<lparr> skill_dirs := d \<rparr>))
        = entries (updateManifest mgr now n (install_source options) fs)"
    by (simp add: entries_updateManifest split: option.splits)
  show ?thesis
    unfolding Install by (auto simp: installSkill_result upd)
next
  case (Uninstall n)
  have rem: "\<And>d. entries (removeFromManifest n (fs \<lparr> skill_dirs := d \<rparr>)) = entries (removeFromManifest n fs)"
    by (simp add: entries_removeFromManifest)
  show ?thesis
    unfolding Uninstall by (auto simp: uninstallSkill_def rem)
qed

lemma step_names:
  assumes "distinct (map entry_name (entries fs))"
  shows "distinct (map entry_name (entries (step mgr fs opn)))"
proof -
  consider "entries (step mgr fs opn) = entries fs"
    | now n src where "entries (step mgr fs opn) = entries (updateManifest mgr now n src fs)"
    | n where "entries (step mgr fs opn) = entries (removeFromManifest n fs)"
    using step_entries[of mgr fs opn] by blast
  then show ?thesis
  proof cases
    case 1
    with assms show ?thesis by simp
  next
    case 2
    with distinct_names_updateManifest[OF assms] show ?thesis by simp
  next
    case 3
    with distinct_names_removeFromManifest[OF assms] show ?thesis by simp
  qed
qed

lemma step_scopes:
  assumes "\<forall>e\<in>set (entries fs). scope e = manager_scope mgr"
  shows "\<forall>e\<in>set (entries (step mgr fs opn)). scope e = manager_scope mgr"
proof -
  consider "entries (step mgr fs opn) = entries fs"
    | now n src where "entries (step mgr fs opn) = entries (updateManifest mgr now n src fs)"
    | n where "entries (step mgr fs opn) = entries (removeFromManifest n fs)"
    using step_entries[of mgr fs opn] by blast
  then show ?thesis
  proof cases
    case 1
    with assms show ?thesis by simp
  next
    case 2
    with scope_updateManifest[OF assms] show ?thesis by simp
  next
    case 3
    with scope_removeFromManifest[OF assms] show ?thesis by simp
  qed
qed

lemma run_Cons: "run mgr (opn # ops) fs = run mgr ops (step mgr fs opn)"
  by (simp add: run_def)

lemma run_names:
  "distinct (map entry_name (entries fs)) \<Longrightarrow> distinct (map entry_name (entries (run mgr ops fs)))"
proof (induction ops arbitrary: fs)
  case Nil
  then show ?case by (simp add: run_def)
next
  case (Cons opn ops)
  have "distinct (map entry_name (entries (step mgr fs opn)))"
    using Cons.prems by (rule step_names)
  then have "distinct (map entry_name (entries (run mgr ops (step mgr fs opn))))"
    by (rule Cons.IH)
  then show ?case by (simp only: run_Cons)
qed

lemma run_scopes:
  "\<forall>e\<in>set (entries fs). scope e = manager_scope mgr \<Longrightarrow>
   \<forall>e\<in>set (entries (run mgr ops fs)). scope e = manager_scope mgr"
proof (induction ops arbitrary: fs)
  case Nil
  then show ?case by (simp add: run_def)
next
  case (Cons opn ops)
  have "\<forall>e\<in>set (entries (step mgr fs opn)). scope e = manager_scope mgr"
    using Cons.prems by (rule step_scopes)
  then have "\<forall>e\<in>set (entries (run mgr ops (step mgr fs opn))). scope e = manager_scope mgr"
    by (rule Cons.IH)
  then show ?case by (simp only: run_Cons)
qed

lemma distinct_pair_const: "distinct (map (\<lambda>n. (n, sc)) ys) = distinct ys"
  by (induction ys) auto

lemma same_scope_unique:
  assumes "\<forall>e\<in>set es. scope e = sc"
  shows "name_scope_unique es \<longleftrightarrow> distinct (map entry_name es)"
proof -
  have "map (\<lambda>e. (entry_name e, scope e)) es = map (\<lambda>n. (n, sc)) (map entry_name es)"
    using assms by simp
  then show ?thesis
    unfolding name_scope_unique_def by (simp only: distinct_pair_const)
qed

lemma names_unique_pairs: "distinct (map entry_name es) \<Longrightarrow> name_scope_unique es"
  unfolding name_scope_unique_def
  by (induction es) auto



lemma count_name_map: "count_name n es = length (filter (\<lambda>x. x = n) (map entry_name es))"
  by (simp add: count_name_def filter_map comp_def)

lemma filter_eq_nonempty: "n \<in> set ys \<Longrightarrow> filter (\<lambda>x. x = n) ys \<noteq> []"
  by (induction ys) auto

lemma filter_eq_empty: "n \<notin> set ys \<Longrightarrow> filter (\<lambda>x. x = n) ys = []"
  by (induction ys) auto

lemma count_name_updateManifest:
  "count_name n (entries (updateManifest mgr now n src fs)) =
     (if count_name n (entries fs) = 0 then 1 else count_name n (entries fs))"
proof -
  define ys where "ys = map entry_name (entries fs)"
  have names: "map entry_name (entries (updateManifest mgr now n src fs)) =
          (if n \<in> set ys then ys else ys @ [n])"
    unfolding ys_def by (rule names_updateManifest)
  show ?thesis
  proof (cases "n \<in> set ys")
    case True
    with filter_eq_nonempty [OF True] show ?thesis
      unfolding count_name_map names ys_def [symmetric] by simp
  next
    case False
    with filter_eq_empty [OF False] show ?thesis
      unfolding count_name_map names ys_def [symmetric] by simp
  qed
qed

lemma installSkill_conflict:
  "skill_dir_exists fs n \<Longrightarrow> force options \<noteq> Some True \<Longrightarrow>
   installSkill mgr now n md options fs = Inl (AlreadyExists n)"
  by (simp add: installSkill_def)

text \<open>
  C3, as stated: with \<open>force\<close>, the directory content is fully replaced with the given
  content. \<open>installSkill\<close> keeps an existing directory (\<open>ensureDir\<close>) and writes \<open>SKILL.md\<close>
  only: a file \<open>notes.txt\<close> that was in the directory is still there after a forced install.
\<close>

theorem force_install_keeps_other_files:
  "(case installSkill example_manager ''2026-01-01T00:00:00.000Z'' ''demo'' ''new''
           \<lparr> force = Some True, install_source = example_source \<rparr> files_with_notes of
      Inl e \<Rightarrow> None
    | Inr (p, fs') \<Rightarrow> read_file fs' ''demo'' ''notes.txt'') = Some ''keep''"
  by (simp add: installSkill_result files_with_notes_def read_file_def updateManifest_def
      getManifest_def skill_dir_exists_def)

text \<open>
  C3, amended: when the directory of the skill exists and \<open>force\<close> is not true,
  \<open>installSkill\<close> fails with \<open>AlreadyExists\<close>. When \<open>force\<close> is true it succeeds: \<open>SKILL.md\<close> in
  the directory holds the given content verbatim, every other entry of the directory and
  every other skill directory is as before, an entry of the manifest for the name is
  replaced in place, and the number of entries for the name stays what it was, or becomes 1
  when there was none; so it stays 1 when it was 1.
\<close>

theorem installSkill_conflict_or_overwrite:
  "(skill_dir_exists fs n \<and> force options \<noteq> Some True \<longrightarrow>
      installSkill mgr now n md options fs = Inl (AlreadyExists n))
   \<and> (force options = Some True \<longrightarrow>
        (\<exists>fs'. installSkill mgr now n md options fs = Inr (getSkillPath mgr n, fs')
           \<and> read_file fs' n ''SKILL.md'' = Some md
           \<and> (\<forall>f. f \<noteq> ''SKILL.md'' \<longrightarrow> read_file fs' n f = read_file fs n f)
           \<and> (\<forall>m. m \<noteq> n \<longrightarrow> skill_dirs fs' m = skill_dirs fs m)
           \<and> (\<forall>i. findIndex (\<lambda>s. entry_name s = n) (entries fs) = Some i \<longrightarrow>
                 entries fs' = (entries fs)[i := new_entry mgr now n (install_source options)])
           \<and> count_name n (entries fs') = (if count_name n (entries fs) = 0 then 1 else count_name n (entries fs))))"
proof (intro conjI impI)
  assume "skill_dir_exists fs n \<and> force options \<noteq> Some True"
  then show "installSkill mgr now n md options fs = Inl (AlreadyExists n)"
    by (simp add: installSkill_conflict)
next
  assume f: "force options = Some True"
  define dirs' where "dirs' = (skill_dirs fs)
       (n \<mapsto> (case skill_dirs fs n of None \<Rightarrow> Map.empty | Some dir \<Rightarrow> dir)(''SKILL.md'' \<mapsto> md))"
  define fs' where "fs' = updateManifest mgr now n (install_source options) (fs \<lparr> skill_dirs := dirs' \<rparr>)"
  have r: "installSkill mgr now n md options fs = Inr (getSkillPath mgr n, fs')"
    using f by (simp add: installSkill_result fs'_def dirs'_def)
  have d: "skill_dirs fs' = dirs'"
    by (simp add: fs'_def updateManifest_def Let_def)
  have e: "entries fs' = entries (updateManifest mgr now n (install_source options) fs)"
    by (simp add: fs'_def entries_updateManifest split: option.splits)
  have 1: "read_file fs' n ''SKILL.md'' = Some md"
    by (simp add: read_file_def d dirs'_def)
  have 2: "\<forall>f. f \<noteq> ''SKILL.md'' \<longrightarrow> read_file fs' n f = read_file fs n f"
    by (simp add: read_file_def d dirs'_def split: option.splits)
  have 3: "\<forall>m. m \<noteq> n \<longrightarrow> skill_dirs fs' m = skill_dirs fs m"
    by (simp add: d dirs'_def)
  have 4: "\<forall>i. findIndex (\<lambda>s. entry_name s = n) (entries fs) = Some i \<longrightarrow>
                 entries fs' = (entries fs)[i := new_entry mgr now n (install_source options)]"
    by (simp add: e entries_updateManifest)
  have 5: "count_name n (entries fs') = (if count_name n (entries fs) = 0 then 1 else count_name n (entries fs))"
    by (simp only: e count_name_updateManifest)
  from r 1 2 3 4 5 show "\<exists>fs'. installSkill mgr now n md options fs = Inr (getSkillPath mgr n, fs')
           \<and> read_file fs' n ''SKILL.md'' = Some md
           \<and> (\<forall>f. f \<noteq> ''SKILL.md'' \<longrightarrow> read_file fs' n f = read_file fs n f)
           \<and> (\<forall>m. m \<noteq> n \<longrightarrow> skill_dirs fs' m = skill_dirs fs m)
           \<and> (\<forall>i. findIndex (\<lambda>s. entry_name s = n) (entries fs) = Some i \<longrightarrow>
                 entries fs' = (entries fs)[i := new_entry mgr now n (install_source options)])
           \<and> count_name n (entries fs') = (if count_name n (entries fs) = 0 then 1 else count_name n (entries fs))"
    by blast
qed


theorem installSkill_conflict_or_overwrite_witness:
  "skill_dir_exists files_with_notes ''demo''
   \<and> force \<lparr> force = None, install_source = example_source \<rparr> \<noteq> Some True
   \<and> installSkill example_manager ''2026-01-01T00:00:00.000Z'' ''demo'' ''new''
         \<lparr> force = None, install_source = example_source \<rparr> files_with_notes
       = Inl (AlreadyExists ''demo'')
   \<and> force \<lparr> force = Some True, install_source = example_source \<rparr> = Some True
   \<and> (\<exists>fs'. installSkill example_manager ''2026-01-01T00:00:00.000Z'' ''demo'' ''new''
                \<lparr> force = Some True, install_source = example_source \<rparr> files_with_notes
              = Inr (''skills/demo'', fs')
            \<and> read_file fs' ''demo'' ''SKILL.md'' = Some ''new''
            \<and> count_name ''demo'' (entries fs') = 1)"
proof -
  have a: "skill_dir_exists files_with_notes ''demo''"
    by (simp add: skill_dir_exists_def files_with_notes_def)
  have c: "count_name ''demo'' (entries files_with_notes) = 0"
    by (simp add: count_name_def entries_def getManifest_def files_with_notes_def)
  have p: "getSkillPath example_manager ''demo'' = ''skills/demo''"
    by (simp add: getSkillPath_def example_manager_def)
  from installSkill_conflict_or_overwrite
         [of files_with_notes "''demo''" "\<lparr> force = None, install_source = example_source \<rparr>"
             example_manager "''2026-01-01T00:00:00.000Z''" "''new''"] a
  have 1: "installSkill example_manager ''2026-01-01T00:00:00.000Z'' ''demo'' ''new''
         \<lparr> force = None, install_source = example_source \<rparr> files_with_notes
       = Inl (AlreadyExists ''demo'')"
    by simp
  from installSkill_conflict_or_overwrite
         [of files_with_notes "''demo''" "\<lparr> force = Some True, install_source = example_source \<rparr>"
             example_manager "''2026-01-01T00:00:00.000Z''" "''new''"] c p
  have 2: "\<exists>fs'. installSkill example_manager ''2026-01-01T00:00:00.000Z'' ''demo'' ''new''
                \<lparr> force = Some True, install_source = example_source \<rparr> files_with_notes
              = Inr (''skills/demo'', fs')
            \<and> read_file fs' ''demo'' ''SKILL.md'' = Some ''new''
            \<and> count_name ''demo'' (entries fs') = 1"
    by auto
  from a 1 2 show ?thesis by simp
qed

text \<open>
  C5. \<open>uninstallSkill\<close> fails with \<open>SkillNotFound\<close> when the directory of the skill does not
  exist. Otherwise it succeeds, the directory is gone, the other directories are as before,
  a manifest in the lock file is rewritten without the entries for the name, and a lock
  file that is missing or unreadable is left as it is.
\<close>

theorem uninstallSkill_removes_directory_and_entry:
  "(\<not> skill_dir_exists fs n \<longrightarrow> uninstallSkill mgr n fs = Inl (SkillNotFound n))
   \<and> (skill_dir_exists fs n \<longrightarrow>
        (\<exists>fs'. uninstallSkill mgr n fs = Inr fs'
           \<and> skill_dirs fs' n = None
           \<and> (\<forall>m. m \<noteq> n \<longrightarrow> skill_dirs fs' m = skill_dirs fs m)
           \<and> (\<forall>manifest. lock fs = Parsed manifest \<longrightarrow>
                 lock fs' = Parsed (manifest \<lparr> skills := filter (\<lambda>s. entry_name s \<noteq> n) (skills manifest) \<rparr>))
           \<and> (lock fs = NoFile \<or> lock fs = Unparsable \<longrightarrow> lock fs' = lock fs)))"
proof (intro conjI impI)
  assume "\<not> skill_dir_exists fs n"
  then show "uninstallSkill mgr n fs = Inl (SkillNotFound n)"
    by (simp add: uninstallSkill_def)
next
  assume ex: "skill_dir_exists fs n"
  define fs' where "fs' = removeFromManifest n (fs \<lparr> skill_dirs := (skill_dirs fs)(n := None) \<rparr>)"
  have r: "uninstallSkill mgr n fs = Inr fs'"
    using ex by (simp add: uninstallSkill_def fs'_def)
  have d: "skill_dirs fs' = (skill_dirs fs)(n := None)"
    by (cases "lock fs") (simp_all add: fs'_def removeFromManifest_def)
  have 1: "skill_dirs fs' n = None" by (simp add: d)
  have 2: "\<forall>m. m \<noteq> n \<longrightarrow> skill_dirs fs' m = skill_dirs fs m" by (simp add: d)
  have 3: "\<forall>manifest. lock fs = Parsed manifest \<longrightarrow>
                 lock fs' = Parsed (manifest \<lparr> skills := filter (\<lambda>s. entry_name s \<noteq> n) (skills manifest) \<rparr>)"
    by (simp add: fs'_def removeFromManifest_def)
  have 4: "lock fs = NoFile \<or> lock fs = Unparsable \<longrightarrow> lock fs' = lock fs"
    by (auto simp: fs'_def removeFromManifest_def)
  from r 1 2 3 4 show "\<exists>fs'. uninstallSkill mgr n fs = Inr fs'
           \<and> skill_dirs fs' n = None
           \<and> (\<forall>m. m \<noteq> n \<longrightarrow> skill_dirs fs' m = skill_dirs fs m)
           \<and> (\<forall>manifest. lock fs = Parsed manifest \<longrightarrow>
                 lock fs' = Parsed (manifest \<lparr> skills := filter (\<lambda>s. entry_name s \<noteq> n) (skills manifest) \<rparr>))
           \<and> (lock fs = NoFile \<or> lock fs = Unparsable \<longrightarrow> lock fs' = lock fs)"
    by blast
qed

theorem uninstallSkill_removes_directory_and_entry_witness:
  "\<not> skill_dir_exists no_files ''demo''
   \<and> uninstallSkill example_manager ''demo'' no_files = Inl (SkillNotFound ''demo'')
   \<and> skill_dir_exists files_without_document ''demo''
   \<and> lock files_without_document = Unparsable
   \<and> (\<exists>fs'. uninstallSkill example_manager ''demo'' files_without_document = Inr fs'
          \<and> skill_dirs fs' ''demo'' = None \<and> lock fs' = Unparsable)"
proof -
  have a: "\<not> skill_dir_exists no_files ''demo''"
    by (simp add: skill_dir_exists_def no_files_def)
  have b: "skill_dir_exists files_without_document ''demo''"
    by (simp add: skill_dir_exists_def files_without_document_def)
  have l: "lock files_without_document = Unparsable"
    by (simp add: files_without_document_def)
  from uninstallSkill_removes_directory_and_entry [of no_files "''demo''" example_manager] a
  have 1: "uninstallSkill example_manager ''demo'' no_files = Inl (SkillNotFound ''demo'')"
    by simp
  from uninstallSkill_removes_directory_and_entry [of files_without_document "''demo''" example_manager] b l
  have 2: "\<exists>fs'. uninstallSkill example_manager ''demo'' files_without_document = Inr fs'
          \<and> skill_dirs fs' ''demo'' = None \<and> lock fs' = Unparsable"
    by auto
  from a b l 1 2 show ?thesis by simp
qed

text \<open>
  C10. \<open>installSkill\<close> without \<open>force\<close> fails with \<open>AlreadyExists\<close> whenever the directory
  of the skill exists; \<open>skillExists\<close> is true exactly when the directory exists and holds
  \<open>SKILL.md\<close>. For a directory without \<open>SKILL.md\<close> the install fails although \<open>skillExists\<close>
  is false, and there are such files for every name.
\<close>

theorem conflict_check_is_not_skillExists:
  "(skill_dir_exists fs n \<and> force options \<noteq> Some True \<longrightarrow>
      installSkill mgr now n md options fs = Inl (AlreadyExists n))
   \<and> (skillExists fs n \<longleftrightarrow> (\<exists>dir. skill_dirs fs n = Some dir \<and> dir ''SKILL.md'' \<noteq> None))
   \<and> (\<forall>dir. skill_dirs fs n = Some dir \<and> dir ''SKILL.md'' = None \<and> force options \<noteq> Some True \<longrightarrow>
         \<not> skillExists fs n \<and> installSkill mgr now n md options fs = Inl (AlreadyExists n))
   \<and> (\<exists>fs0. \<not> skillExists fs0 n
         \<and> installSkill mgr now n md \<lparr> force = None, install_source = src \<rparr> fs0 = Inl (AlreadyExists n))"
proof (intro conjI)
  show "skill_dir_exists fs n \<and> force options \<noteq> Some True \<longrightarrow>
      installSkill mgr now n md options fs = Inl (AlreadyExists n)"
    by (simp add: installSkill_conflict)
  show "skillExists fs n \<longleftrightarrow> (\<exists>dir. skill_dirs fs n = Some dir \<and> dir ''SKILL.md'' \<noteq> None)"
    by (cases "skill_dirs fs n") (simp_all add: skillExists_def)
  show "\<forall>dir. skill_dirs fs n = Some dir \<and> dir ''SKILL.md'' = None \<and> force options \<noteq> Some True \<longrightarrow>
         \<not> skillExists fs n \<and> installSkill mgr now n md options fs = Inl (AlreadyExists n)"
    by (simp add: skillExists_def installSkill_def skill_dir_exists_def)
  have "\<not> skillExists \<lparr> skill_dirs = [n \<mapsto> Map.empty], lock = NoFile \<rparr> n
        \<and> installSkill mgr now n md \<lparr> force = None, install_source = src \<rparr>
             \<lparr> skill_dirs = [n \<mapsto> Map.empty], lock = NoFile \<rparr> = Inl (AlreadyExists n)"
    by (simp add: skillExists_def installSkill_def skill_dir_exists_def)
  then show "\<exists>fs0. \<not> skillExists fs0 n
         \<and> installSkill mgr now n md \<lparr> force = None, install_source = src \<rparr> fs0 = Inl (AlreadyExists n)"
    by blast
qed

theorem conflict_check_is_not_skillExists_witness:
  "skill_dirs files_without_document ''demo'' = Some Map.empty
   \<and> skill_dir_exists files_without_document ''demo''
   \<and> force \<lparr> force = Some False, install_source = example_source \<rparr> \<noteq> Some True
   \<and> \<not> skillExists files_without_document ''demo''
   \<and> installSkill example_manager ''2026-01-01T00:00:00.000Z'' ''demo'' ''new''
         \<lparr> force = Some False, install_source = example_source \<rparr> files_without_document
       = Inl (AlreadyExists ''demo'')"
proof -
  have d: "skill_dirs files_without_document ''demo'' = Some Map.empty"
    by (simp add: files_without_document_def)
  have e: "skill_dir_exists files_without_document ''demo''"
    by (simp add: skill_dir_exists_def d)
  from conflict_check_is_not_skillExists
         [of files_without_document "''demo''" "\<lparr> force = Some False, install_source = example_source \<rparr>"
             example_manager "''2026-01-01T00:00:00.000Z''" "''new''"] d
  have "\<not> skillExists files_without_document ''demo''
        \<and> installSkill example_manager ''2026-01-01T00:00:00.000Z'' ''demo'' ''new''
         \<lparr> force = Some False, install_source = example_source \<rparr> files_without_document
       = Inl (AlreadyExists ''demo'')"
    by simp
  with d e show ?thesis by simp
qed


lemma count_name_scope_le: "count_name_scope n s es \<le> count_name n es"
  unfolding count_name_scope_def count_name_def
  by (induction es) auto

lemma distinct_count_le_1: "distinct ys \<Longrightarrow> length (filter (\<lambda>x. x = n) ys) \<le> 1"
  by (induction ys) (auto simp: filter_eq_empty)

lemma entries_no_lock: "entries (fs \<lparr> lock := NoFile \<rparr>) = []"
  by (simp add: entries_def getManifest_def)

text \<open>
  C2, as stated: every sequence of installs and uninstalls preserves that the manifest has
  at most one entry for each pair of a name and a scope. \<open>updateManifest\<close> finds the entry to
  replace by its name alone. A lock file with one entry \<open>demo\<close> of scope \<open>global\<close> followed
  by one entry \<open>demo\<close> of scope \<open>project\<close> has one entry for each pair; an install of \<open>demo\<close>
  by the manager of scope \<open>project\<close> replaces the first of them, and the manifest then has
  two entries for \<open>demo\<close> and \<open>project\<close>.
\<close>

theorem install_by_name_breaks_name_scope_pairs:
  "name_scope_unique (entries files_with_two_scopes)
   \<and> entries (run example_manager
                [Install ''2026-01-02T00:00:00.000Z'' ''demo'' ''second''
                   \<lparr> force = Some True, install_source = example_source \<rparr>]
                files_with_two_scopes) =
       [new_entry example_manager ''2026-01-02T00:00:00.000Z'' ''demo'' example_source,
        new_entry example_manager ''2026-01-01T00:00:00.000Z'' ''demo'' example_source]
   \<and> count_name_scope ''demo'' project
         (entries (run example_manager
                     [Install ''2026-01-02T00:00:00.000Z'' ''demo'' ''second''
                        \<lparr> force = Some True, install_source = example_source \<rparr>]
                     files_with_two_scopes)) = 2
   \<and> \<not> name_scope_unique
         (entries (run example_manager
                     [Install ''2026-01-02T00:00:00.000Z'' ''demo'' ''second''
                        \<lparr> force = Some True, install_source = example_source \<rparr>]
                     files_with_two_scopes))"
proof -
  have r: "entries (run example_manager
                [Install ''2026-01-02T00:00:00.000Z'' ''demo'' ''second''
                   \<lparr> force = Some True, install_source = example_source \<rparr>]
                files_with_two_scopes) =
       [new_entry example_manager ''2026-01-02T00:00:00.000Z'' ''demo'' example_source,
        new_entry example_manager ''2026-01-01T00:00:00.000Z'' ''demo'' example_source]"
    by (simp add: run_def files_with_two_scopes_def installSkill_result
        skill_dir_exists_def updateManifest_def entries_def getManifest_def new_entry_def
        example_manager_def Let_def)
  have u: "name_scope_unique (entries files_with_two_scopes)"
    by (simp add: name_scope_unique_def files_with_two_scopes_def entries_def getManifest_def
        new_entry_def example_manager_def)
  show ?thesis
    unfolding r using u
    by (simp add: name_scope_unique_def count_name_scope_def new_entry_def example_manager_def)
qed

text \<open>
  C2, amended: every sequence of \<open>installSkill\<close> and \<open>uninstallSkill\<close> calls preserves that
  the manifest has at most one entry for each name, whatever the scopes of its entries;
  such a manifest has at most one entry for each pair of a name and a scope. From a
  missing lock file on, every sequence of calls leads to a manifest with at most one entry
  for each name and for each pair of a name and a scope. An install of a name that has an
  entry replaces the first entry of that name at its index and appends nothing; an
  uninstall leaves the manifest without entries for the name.
\<close>

theorem install_uninstall_keep_one_entry_per_name:
  assumes d: "distinct (map entry_name (entries fs))"
  shows "distinct (map entry_name (entries (run mgr ops fs)))
       \<and> name_scope_unique (entries (run mgr ops fs))
       \<and> (\<forall>n. count_name n (entries (run mgr ops fs)) \<le> 1)
       \<and> (\<forall>n s. count_name_scope n s (entries (run mgr ops fs)) \<le> 1)
       \<and> name_scope_unique (entries (run mgr ops (fs0 \<lparr> lock := NoFile \<rparr>)))
       \<and> (\<forall>n s. count_name_scope n s (entries (run mgr ops (fs0 \<lparr> lock := NoFile \<rparr>))) \<le> 1)
       \<and> (\<forall>now n md options p fs' i.
             installSkill mgr now n md options fs = Inr (p, fs')
             \<and> findIndex (\<lambda>s. entry_name s = n) (entries fs) = Some i \<longrightarrow>
             entries fs' = (entries fs)[i := new_entry mgr now n (install_source options)])
       \<and> (\<forall>n fs'. uninstallSkill mgr n fs = Inr fs' \<longrightarrow>
             entries fs' = filter (\<lambda>s. entry_name s \<noteq> n) (entries fs)
             \<and> count_name n (entries fs') = 0)"
proof (intro conjI allI impI)
  show d': "distinct (map entry_name (entries (run mgr ops fs)))"
    using d by (rule run_names)
  show "name_scope_unique (entries (run mgr ops fs))"
    using d' by (rule names_unique_pairs)
  show c: "count_name n (entries (run mgr ops fs)) \<le> 1" for n
    unfolding count_name_map using d' by (rule distinct_count_le_1)
  show "count_name_scope n s (entries (run mgr ops fs)) \<le> 1" for n s
    using count_name_scope_le [of n s "entries (run mgr ops fs)"] c [of n] by simp
  have "distinct (map entry_name (entries (fs0 \<lparr> lock := NoFile \<rparr>)))"
    by (simp add: entries_no_lock)
  then have d0: "distinct (map entry_name (entries (run mgr ops (fs0 \<lparr> lock := NoFile \<rparr>))))"
    by (rule run_names)
  then show "name_scope_unique (entries (run mgr ops (fs0 \<lparr> lock := NoFile \<rparr>)))"
    by (rule names_unique_pairs)
  have c0: "count_name n (entries (run mgr ops (fs0 \<lparr> lock := NoFile \<rparr>))) \<le> 1" for n
    unfolding count_name_map using d0 by (rule distinct_count_le_1)
  show "count_name_scope n s (entries (run mgr ops (fs0 \<lparr> lock := NoFile \<rparr>))) \<le> 1" for n s
    using count_name_scope_le [of n s "entries (run mgr ops (fs0 \<lparr> lock := NoFile \<rparr>))"] c0 [of n]
    by simp
next
  fix now n md options p fs' i
  assume a: "installSkill mgr now n md options fs = Inr (p, fs')
             \<and> findIndex (\<lambda>s. entry_name s = n) (entries fs) = Some i"
  then have "entries fs' = entries (updateManifest mgr now n (install_source options) fs)"
    by (auto simp: installSkill_result entries_updateManifest split: if_splits option.splits)
  with a show "entries fs' = (entries fs)[i := new_entry mgr now n (install_source options)]"
    by (simp add: entries_updateManifest)
next
  fix n fs'
  assume a: "uninstallSkill mgr n fs = Inr fs'"
  then have e: "entries fs' = filter (\<lambda>s. entry_name s \<noteq> n) (entries fs)"
    by (auto simp: uninstallSkill_def entries_removeFromManifest split: if_splits)
  then show "entries fs' = filter (\<lambda>s. entry_name s \<noteq> n) (entries fs)" .
  from e show "count_name n (entries fs') = 0"
    by (simp add: count_name_def)
qed

theorem install_uninstall_keep_one_entry_per_name_witness:
  "distinct (map entry_name (entries files_with_foreign_entry))
   \<and> entries (run example_manager example_operations files_with_foreign_entry) =
       [foreign_entry,
        new_entry example_manager ''2026-01-02T00:00:00.000Z'' ''demo'' example_source]
   \<and> distinct (map entry_name (entries (run example_manager example_operations files_with_foreign_entry)))
   \<and> name_scope_unique (entries (run example_manager example_operations files_with_foreign_entry))
   \<and> count_name_scope ''demo'' project
         (entries (run example_manager example_operations files_with_foreign_entry)) \<le> 1
   \<and> entries (run example_manager example_operations no_files) =
       [new_entry example_manager ''2026-01-02T00:00:00.000Z'' ''demo'' example_source]"
proof -
  have d: "distinct (map entry_name (entries files_with_foreign_entry))"
    by (simp add: files_with_foreign_entry_def foreign_entry_def entries_def getManifest_def
        new_entry_def)
  have r: "entries (run example_manager example_operations files_with_foreign_entry) =
       [foreign_entry,
        new_entry example_manager ''2026-01-02T00:00:00.000Z'' ''demo'' example_source]"
    by (simp add: run_def example_operations_def files_with_foreign_entry_def foreign_entry_def
        installSkill_result uninstallSkill_def skill_dir_exists_def updateManifest_def
        removeFromManifest_def entries_def getManifest_def new_entry_def Let_def)
  have r0: "entries (run example_manager example_operations no_files) =
       [new_entry example_manager ''2026-01-02T00:00:00.000Z'' ''demo'' example_source]"
    by (simp add: run_def example_operations_def no_files_def installSkill_result
        uninstallSkill_def skill_dir_exists_def updateManifest_def removeFromManifest_def
        entries_def getManifest_def new_entry_def Let_def)
  from install_uninstall_keep_one_entry_per_name [OF d, of example_manager example_operations]
  have "distinct (map entry_name (entries (run example_manager example_operations files_with_foreign_entry)))
        \<and> name_scope_unique (entries (run example_manager example_operations files_with_foreign_entry))
        \<and> count_name_scope ''demo'' project
             (entries (run example_manager example_operations files_with_foreign_entry)) \<le> 1"
    by blast
  with d r r0 show ?thesis by blast
qed

section \<open>Properties of the document parser and generator\<close>

lemma matter_lines_document_with_license:
  "matter_lines document_with_license =
     Inr (map_of licensed_data, NL @ ''Body'' @ NL)"
  by (simp add: matter_lines_def document_with_license_def licensed_data_def demo_data_def NL_def header_line_def
      scalar_def trim_def is_space_def)

lemma matter_lines_document_without_body:
  "matter_lines document_without_body = Inr (map_of demo_data, [])"
  by (simp add: matter_lines_def document_without_body_def demo_data_def NL_def header_line_def
      scalar_def trim_def is_space_def)

lemma matter_lines_generated_document:
  "matter_lines generated_document =
     Inr (map_of generated_data, NL @ ''Body'' @ NL)"
  by (simp add: matter_lines_def generated_document_def generated_data_def demo_data_def NL_def header_line_def
      scalar_def trim_def is_space_def)

lemma schema_demo_data:
  "SkillFrontmatterSchema_parse is_email is_url (map_of demo_data) = Inr demo_frontmatter"
  by (simp add: SkillFrontmatterSchema_parse_def demo_data_def zod_ap_def z_name_def
      z_description_def z_string_def z_optional_def z_default_def z_allowed_tools_def
      name_regex_def is_lower_def is_digit_def demo_frontmatter_def)

lemma schema_demo_data_license:
  "SkillFrontmatterSchema_parse is_email is_url (map_of licensed_data)
     = Inr (demo_frontmatter \<lparr> license := Some ''MIT'' \<rparr>)"
  by (simp add: SkillFrontmatterSchema_parse_def licensed_data_def demo_data_def zod_ap_def z_name_def
      z_description_def z_string_def z_optional_def z_default_def z_allowed_tools_def
      name_regex_def is_lower_def is_digit_def demo_frontmatter_def)

lemma schema_demo_data_generated:
  "SkillFrontmatterSchema_parse is_email is_url (map_of generated_data) = Inr demo_frontmatter"
  by (simp add: SkillFrontmatterSchema_parse_def generated_data_def demo_data_def zod_ap_def z_name_def
      z_description_def z_string_def z_boolean_def z_optional_def z_default_def
      z_allowed_tools_def name_regex_def is_lower_def is_digit_def demo_frontmatter_def)

text \<open>
  C4. The claim: \<open>generate(parse(d).header, parse(d).body)\<close> keeps every defined header
  field of \<open>d\<close>, \<open>license\<close>, \<open>author\<close>, \<open>keywords\<close> and \<open>repository\<close> included.
  \<open>generateSkillMd\<close> writes no line for these four fields: its output does not depend on
  them. A document with \<open>license: MIT\<close> is parsed with that license; the document generated
  from the parsed header and body has no license line, and parsing it again gives no
  license.
\<close>

theorem generateSkillMd_drops_license_author_keywords_repository:
  "generateSkillMd (frontmatter \<lparr> license := l, author := a, keywords' := k, repository := r \<rparr>) body
     = generateSkillMd frontmatter body
   \<and> SkillParser_parse matter_lines is_email is_url ''skills/demo''
        [''SKILL.md'' \<mapsto> document_with_license]
     = Inr (SkillFrontmatter.extend (demo_frontmatter \<lparr> license := Some ''MIT'' \<rparr>)
              (Skill.fields ''Body'' ''skills/demo''))
   \<and> generateSkillMd (demo_frontmatter \<lparr> license := Some ''MIT'' \<rparr>) ''Body'' = generated_document
   \<and> SkillParser_parse matter_lines is_email is_url ''skills/demo''
        [''SKILL.md'' \<mapsto> generated_document]
     = Inr (SkillFrontmatter.extend demo_frontmatter (Skill.fields ''Body'' ''skills/demo''))
   \<and> license (SkillFrontmatter.extend demo_frontmatter (Skill.fields ''Body'' ''skills/demo'')) = None"
proof (intro conjI)
  show "generateSkillMd (frontmatter \<lparr> license := l, author := a, keywords' := k, repository := r \<rparr>) body
     = generateSkillMd frontmatter body"
    by (simp add: generateSkillMd_def)
  show "SkillParser_parse matter_lines is_email is_url ''skills/demo''
        [''SKILL.md'' \<mapsto> document_with_license]
     = Inr (SkillFrontmatter.extend (demo_frontmatter \<lparr> license := Some ''MIT'' \<rparr>)
              (Skill.fields ''Body'' ''skills/demo''))"
    by (simp add: SkillParser_parse_def matter_lines_document_with_license
        schema_demo_data_license trim_def is_space_def NL_def)
  show "generateSkillMd (demo_frontmatter \<lparr> license := Some ''MIT'' \<rparr>) ''Body'' = generated_document"
    by (simp add: generateSkillMd_def demo_frontmatter_def generated_document_def
        string_line_def boolean_line_def tools_line_def context_line_def)
  show "SkillParser_parse matter_lines is_email is_url ''skills/demo''
        [''SKILL.md'' \<mapsto> generated_document]
     = Inr (SkillFrontmatter.extend demo_frontmatter (Skill.fields ''Body'' ''skills/demo''))"
    by (simp add: SkillParser_parse_def matter_lines_generated_document
        schema_demo_data_generated trim_def is_space_def NL_def)
  show "license (SkillFrontmatter.extend demo_frontmatter (Skill.fields ''Body'' ''skills/demo'')) = None"
    by (simp add: SkillFrontmatter.defs demo_frontmatter_def)
qed

text \<open>
  C9. The claim: the body of every skill that \<open>parse\<close> returns is not empty.
  \<open>SkillParser.parse\<close> validates the header only: a document whose header is valid and whose
  text after the header is empty or white space is accepted, with the empty string as its
  content, which the check of \<open>SkillSchema\<close> for the content rejects.
\<close>

theorem SkillParser_parse_accepts_empty_body:
  assumes "dir ''SKILL.md'' = Some document"
    and "matter document = Inr (data, body)"
    and "SkillFrontmatterSchema_parse is_email is_url data = Inr frontmatter"
    and "trim body = []"
  shows "\<exists>skill. SkillParser_parse matter is_email is_url base dir = Inr skill
           \<and> content skill = []
           \<and> SkillSchema_content (content skill) = Inl [''Skill content is required'']"
proof -
  have "SkillParser_parse matter is_email is_url base dir =
          Inr (SkillFrontmatter.extend frontmatter (Skill.fields [] base))"
    using assms by (simp add: SkillParser_parse_def)
  moreover have "content (SkillFrontmatter.extend frontmatter (Skill.fields [] base)) = []"
    by (simp add: SkillFrontmatter.defs Skill.defs)
  ultimately show ?thesis
    by (simp add: SkillSchema_content_def)
qed

theorem SkillParser_parse_accepts_empty_body_witness:
  "[''SKILL.md'' \<mapsto> document_without_body] ''SKILL.md'' = Some document_without_body
   \<and> matter_lines document_without_body = Inr (map_of demo_data, [])
   \<and> SkillFrontmatterSchema_parse (\<lambda>_. True) (\<lambda>_. True) (map_of demo_data) = Inr demo_frontmatter
   \<and> trim [] = []
   \<and> (\<exists>skill. SkillParser_parse matter_lines (\<lambda>_. True) (\<lambda>_. True) ''skills/demo''
                  [''SKILL.md'' \<mapsto> document_without_body] = Inr skill
          \<and> content skill = []
          \<and> SkillSchema_content (content skill) = Inl [''Skill content is required''])"
proof -
  have a: "[''SKILL.md'' \<mapsto> document_without_body] ''SKILL.md'' = Some document_without_body"
    by simp
  have t: "trim [] = []"
    by (simp add: trim_def)
  note m = matter_lines_document_without_body
  note v = schema_demo_data [of "\<lambda>_. True" "\<lambda>_. True"]
  from SkillParser_parse_accepts_empty_body
         [where dir = "[''SKILL.md'' \<mapsto> document_without_body]"
            and document = document_without_body and matter = matter_lines
            and data = "map_of demo_data" and body = "[]"
            and is_email = "\<lambda>_. True" and is_url = "\<lambda>_. True"
            and frontmatter = demo_frontmatter and base = "''skills/demo''"]
       a m v t
  show ?thesis by blast
qed

end
